theory Spec2Isabelle
  imports Main "HOL-Library.Multiset"
begin

section \<open>Data model: the roachpb values that storage/intent\_resolver.go handles\<close>

text \<open>
  The type declarations of package roachpb are not part of the file under study; the
  records below carry the fields that intent\_resolver.go reads or writes. A Go byte
  slice is a list of 8-bit characters, a pointer that may be nil is an option, a nil
  slice is the empty list.
\<close>

type_synonym key = string

type_synonym uuid = string

record span =
  Key :: key
  EndKey :: key

record timestamp =
  WallTime :: int
  Logical :: int

record txn_meta =
  ID :: "uuid option"
  MetaKey :: key
  Epoch :: nat

datatype transaction_status = PENDING | COMMITTED | ABORTED

record transaction =
  TxnMeta :: txn_meta
  Priority :: int
  TxnStatus :: transaction_status

record intent =
  Span :: span
  Txn :: txn_meta
  Status :: transaction_status

datatype push_txn_type = PUSH_TIMESTAMP | PUSH_ABORT | PUSH_TOUCH

record header =
  Timestamp :: timestamp
  HeaderTxn :: "transaction option"
  UserPriority :: int

record write_intent_error =
  Intents :: "intent list"
  Resolved :: bool

text \<open>
  A \<open>*roachpb.Error\<close>: either the wrapped write intent error that
  \<open>roachpb.NewError(&wiErr)\<close> builds, or any other error, which the resolver only
  passes on.
\<close>

datatype perror = WriteIntentError write_intent_error | OtherError string

datatype rpc_method = EndTransaction | OtherMethod string

text \<open>What the resolver observes of a request: \<open>args.Method()\<close> and \<open>roachpb.IsReadOnly(args)\<close>.\<close>

record request_args =
  Method :: rpc_method
  IsReadOnly :: bool

datatype request =
    PushTxnRequest span transaction txn_meta timestamp timestamp push_txn_type
  | ResolveIntentRequest span txn_meta transaction_status bool
  | ResolveIntentRangeRequest span txn_meta transaction_status bool
  | GCRequest span "key list"

text \<open>
  An element of \<open>br.Responses\<close>: its inner response is a \<open>PushTxnResponse\<close> carrying the
  pushee, or something else (on which the type assertion of the source panics).
\<close>

datatype response = PushTxnResponse transaction | NotAPushTxnResponse

datatype panic = IndexOutOfRange | TypeAssertionFailed

record intentsWithArg =
  args :: request_args
  intents :: "intent list"

section \<open>The collaborators and the trace of calls made to them\<close>

text \<open>
  A task handed to \<open>Stopper().RunAsyncTask\<close>: the closure around the local batch, the
  closure around the remote batch, or a closure of \<open>processIntentsAsync\<close>. The last
  one holds the \<open>args\<close> cloned for its own iteration (line 203) and the \<open>now\<close> it
  captured; it also captures the loop variable \<open>item\<close> of line 199, which is one
  variable for the whole loop, and reads \<open>item.intents\<close> only when it runs (lines 213
  and 252). The list is what that variable holds from the closure's own iteration to
  the end of the loop.
\<close>

datatype task =
    ResolveLocalTask "request list"
  | ResolveRemoteTask "request list"
  | ProcessIntentsTask request_args "intentsWithArg list" timestamp

text \<open>
  Every call that leaves the resolver is recorded, in order: the push batch given to
  \<open>db.RunWithResponse\<close>, a batch given to \<open>r.addWriteCmd\<close>, a batch given to
  \<open>DB().Run\<close>, a submission to the task pool with the pool's answer, and a warning
  written to the log. Tracing spans, context deadlines and the verbosity-guarded info
  lines are left out.
\<close>

datatype event =
    EvRunWithResponse "request list"
  | EvAddWriteCmd "request list"
  | EvRun "request list"
  | EvRunAsyncTask task bool
  | EvWarning string perror

text \<open>
  The store and the replica are outside the file; each of their operations is a
  parameter that may answer differently depending on everything that happened before
  (the trace so far). \<open>RunAsyncTask\<close> answers \<open>False\<close> when the pool is draining.
\<close>

record store =
  Clock_Now :: "event list \<Rightarrow> timestamp"
  MakePriority :: "event list \<Rightarrow> int \<Rightarrow> int"
  db_RunWithResponse :: "event list \<Rightarrow> request list \<Rightarrow> perror + response list"
  db_Run :: "event list \<Rightarrow> request list \<Rightarrow> perror option"
  Stopper_RunAsyncTask :: "event list \<Rightarrow> bool"
  TransactionKey :: "key \<Rightarrow> uuid option \<Rightarrow> key"

record replica =
  ContainsKey :: "key \<Rightarrow> bool"
  ContainsKeyRange :: "key \<Rightarrow> key \<Rightarrow> bool"
  Desc_StartKey :: key
  Desc_EndKey :: key
  addWriteCmd :: "event list \<Rightarrow> request list \<Rightarrow> perror option"

section \<open>maybePushTransactions (lines 117-184)\<close>

text \<open>The first loop (lines 127-135); the pair is \<open>(pushIntents, resolveIntents)\<close>.\<close>

definition partitionIntents :: "intent list \<Rightarrow> intent list \<times> intent list" where
  "partitionIntents intents_in =
     foldl (\<lambda>(pushIntents, resolveIntents) intent.
              if Status intent \<noteq> PENDING
              then (pushIntents, resolveIntents @ [intent])
              else (pushIntents @ [intent], resolveIntents))
           ([], []) intents_in"

text \<open>\<open>roachpb.Transaction{Priority: p}\<close>: every other field has its zero value.\<close>

definition priorityOnlyTxn :: "int \<Rightarrow> transaction" where
  "priorityOnlyTxn p =
     \<lparr>TxnMeta = \<lparr>ID = None, MetaKey = [], Epoch = 0\<rparr>, Priority = p, TxnStatus = PENDING\<rparr>"

text \<open>The request built for one push-needed intent (lines 151-165).\<close>

definition pushTxnRequest ::
  "transaction \<Rightarrow> header \<Rightarrow> timestamp \<Rightarrow> push_txn_type \<Rightarrow> intent \<Rightarrow> request" where
  "pushTxnRequest pusherTxn h now pushType intent =
     PushTxnRequest \<lparr>Key = MetaKey (Txn intent), EndKey = []\<rparr>
       pusherTxn (Txn intent) (Timestamp h) now pushType"

text \<open>
  The last loop (lines 177-182), walking \<open>pushIntents\<close> and \<open>br.Responses\<close> together:
  \<open>br.Responses[i]\<close> panics when there is no i-th response, the type assertion panics
  when it is not a \<open>PushTxnResponse\<close>.
\<close>

fun applyPushResponses ::
  "intent list \<Rightarrow> response list \<Rightarrow> intent list \<Rightarrow> panic + intent list" where
  "applyPushResponses [] br resolveIntents = Inr resolveIntents"
| "applyPushResponses (intent # pushIntents) [] resolveIntents = Inl IndexOutOfRange"
| "applyPushResponses (intent # pushIntents) (PushTxnResponse pushee # br) resolveIntents =
     applyPushResponses pushIntents br
       (resolveIntents @ [intent\<lparr>Txn := TxnMeta pushee, Status := TxnStatus pushee\<rparr>])"
| "applyPushResponses (intent # pushIntents) (NotAPushTxnResponse # br) resolveIntents =
     Inl TypeAssertionFailed"

text \<open>
  Lines 138-166: the clock is read, the pusher is the header's transaction or, without
  one, a transaction with only its priority set, and one request is built per
  push-needed intent.
\<close>

definition pushRequests ::
  "store \<Rightarrow> event list \<Rightarrow> intent list \<Rightarrow> header \<Rightarrow> push_txn_type \<Rightarrow> request list" where
  "pushRequests st tr pushIntents h pushType =
     (let now = Clock_Now st tr;
          pusherTxn = (case HeaderTxn h of
                         None \<Rightarrow> priorityOnlyTxn (MakePriority st tr (UserPriority h))
                       | Some t \<Rightarrow> t)
      in map (pushTxnRequest pusherTxn h now pushType) pushIntents)"

text \<open>
  The batch is sent even when it holds no request. On an error the source returns a nil
  slice with it (line 174).
\<close>

definition maybePushTransactions ::
  "store \<Rightarrow> event list \<Rightarrow> intent list \<Rightarrow> header \<Rightarrow> push_txn_type
     \<Rightarrow> (panic + intent list \<times> perror option) \<times> event list" where
  "maybePushTransactions st tr intents_in h pushType =
     (let (pushIntents, resolveIntents) = partitionIntents intents_in;
          pushReqs = pushRequests st tr pushIntents h pushType;
          tr' = tr @ [EvRunWithResponse pushReqs]
      in case db_RunWithResponse st tr pushReqs of
           Inl err \<Rightarrow> (Inr ([], Some err), tr')
         | Inr br \<Rightarrow>
             (case applyPushResponses pushIntents br resolveIntents of
                Inl p \<Rightarrow> (Inl p, tr')
              | Inr resolvable \<Rightarrow> (Inr (resolvable, None), tr')))"

section \<open>resolveIntents (lines 279-377)\<close>

text \<open>The request and the locality flag computed for one intent (lines 290-310).\<close>

definition resolveArgs :: "replica \<Rightarrow> bool \<Rightarrow> intent \<Rightarrow> request \<times> bool" where
  "resolveArgs r poison intent =
     (if length (EndKey (Span intent)) = 0
      then (ResolveIntentRequest (Span intent) (Txn intent) (Status intent) poison,
            ContainsKey r (Key (Span intent)))
      else (ResolveIntentRangeRequest (Span intent) (Txn intent) (Status intent) poison,
            ContainsKeyRange r (Key (Span intent)) (EndKey (Span intent))))"

text \<open>The loop of lines 288-319; the pair is \<open>(baLocal.Requests, reqsRemote)\<close>.\<close>

definition splitIntents :: "replica \<Rightarrow> bool \<Rightarrow> intent list \<Rightarrow> request list \<times> request list" where
  "splitIntents r poison intents_in =
     foldl (\<lambda>(baLocal, reqsRemote) intent.
              case resolveArgs r poison intent of
                (req, local) \<Rightarrow>
                  if local then (baLocal @ [req], reqsRemote)
                  else (baLocal, reqsRemote @ [req]))
           ([], []) intents_in"

text \<open>The two closures named \<open>action\<close> (lines 324-335 and 356-359), run on the caller.\<close>

definition localAction :: "replica \<Rightarrow> event list \<Rightarrow> request list \<Rightarrow> perror option \<times> event list" where
  "localAction r tr baLocal = (addWriteCmd r tr baLocal, tr @ [EvAddWriteCmd baLocal])"

definition remoteAction :: "store \<Rightarrow> event list \<Rightarrow> request list \<Rightarrow> perror option \<times> event list" where
  "remoteAction st tr reqsRemote = (db_Run st tr reqsRemote, tr @ [EvRun reqsRemote])"

text \<open>
  The block for the local batch (lines 323-350). With \<open>wait\<close> the pool is not asked
  (\<open>||\<close> short-circuits). A task that the pool accepts runs outside this call: the
  trace records the submission only. The error returned is the one that makes
  \<open>resolveIntents\<close> return at once.
\<close>

definition resolveLocal ::
  "store \<Rightarrow> replica \<Rightarrow> event list \<Rightarrow> request list \<Rightarrow> bool \<Rightarrow> perror option \<times> event list" where
  "resolveLocal st r tr baLocal wait =
     (if length baLocal > 0 then
        (if wait then localAction r tr baLocal
         else if Stopper_RunAsyncTask st tr
              then (None, tr @ [EvRunAsyncTask (ResolveLocalTask baLocal) True])
              else localAction r (tr @ [EvRunAsyncTask (ResolveLocalTask baLocal) False]) baLocal)
      else (None, tr))"

text \<open>The block for the remote batch (lines 353-371).\<close>

definition resolveRemote ::
  "store \<Rightarrow> event list \<Rightarrow> request list \<Rightarrow> bool \<Rightarrow> perror option \<times> event list" where
  "resolveRemote st tr reqsRemote wait =
     (if length reqsRemote > 0 then
        (if wait then remoteAction st tr reqsRemote
         else if Stopper_RunAsyncTask st tr
              then (None, tr @ [EvRunAsyncTask (ResolveRemoteTask reqsRemote) True])
              else remoteAction st (tr @ [EvRunAsyncTask (ResolveRemoteTask reqsRemote) False])
                     reqsRemote)
      else (None, tr))"

definition resolveIntents ::
  "store \<Rightarrow> replica \<Rightarrow> event list \<Rightarrow> intent list \<Rightarrow> bool \<Rightarrow> bool
     \<Rightarrow> perror option \<times> event list" where
  "resolveIntents st r tr intents_in wait poison =
     (let (baLocal, reqsRemote) = splitIntents r poison intents_in
      in case resolveLocal st r tr baLocal wait of
           (Some err, tr1) \<Rightarrow> (Some err, tr1)
         | (None, tr1) \<Rightarrow> resolveRemote st tr1 reqsRemote wait)"

section \<open>processWriteIntentError (lines 55-96)\<close>

definition processWriteIntentError ::
  "store \<Rightarrow> replica \<Rightarrow> event list \<Rightarrow> write_intent_error \<Rightarrow> request_args \<Rightarrow> header
     \<Rightarrow> push_txn_type \<Rightarrow> (panic + perror) \<times> event list" where
  "processWriteIntentError st r tr wiErr a h pushType =
     (let readOnly = IsReadOnly a
      in case maybePushTransactions st tr (Intents wiErr) h pushType of
           (Inl p, tr1) \<Rightarrow> (Inl p, tr1)
         | (Inr (resolvable, pushErr), tr1) \<Rightarrow>
             (let (resErr, tr2) = resolveIntents st r tr1 resolvable False True;
                  tr3 = (case resErr of
                           None \<Rightarrow> tr2
                         | Some e \<Rightarrow> tr2 @ [EvWarning ''asynchronous resolveIntents failed'' e])
              in case pushErr of
                   Some pe \<Rightarrow>
                     (if (case HeaderTxn h of None \<Rightarrow> False | Some t \<Rightarrow> ID (TxnMeta t) \<noteq> None)
                         \<and> \<not> readOnly
                      then (Inr pe, tr3)
                      else (Inr (WriteIntentError wiErr), tr3))
                 | None \<Rightarrow> (Inr (WriteIntentError (wiErr\<lparr>Resolved := True\<rparr>)), tr3)))"

section \<open>processIntentsAsync (lines 191-268)\<close>

text \<open>
  The body of the closure (lines 204-266), given the \<open>now\<close> it captured and what it
  reads when it runs: \<open>args item\<close> stands for its own cloned \<open>args\<close>, \<open>intents item\<close>
  for the \<open>item.intents\<close> it finds in the loop variable.
\<close>

definition processIntentsTask ::
  "store \<Rightarrow> replica \<Rightarrow> event list \<Rightarrow> timestamp \<Rightarrow> intentsWithArg
     \<Rightarrow> (panic + unit) \<times> event list" where
  "processIntentsTask st r tr now item =
     (let h = \<lparr>Timestamp = now, HeaderTxn = None, UserPriority = 0\<rparr>
      in case maybePushTransactions st tr (intents item) h PUSH_TOUCH of
           (Inl p, tr1) \<Rightarrow> (Inl p, tr1)
         | (Inr (resolvable, pushErr), tr1) \<Rightarrow>
             (case resolveIntents st r tr1 resolvable True False of
                (Some pErr, tr2) \<Rightarrow>
                  (Inr (), tr2 @ [EvWarning ''failed to resolve intents'' pErr])
              | (None, tr2) \<Rightarrow>
                  (case pushErr of
                     Some pe \<Rightarrow>
                       (Inr (), tr2 @ [EvWarning ''failed to push during intent resolution'' pe])
                   | None \<Rightarrow>
                       (if Method (args item) = EndTransaction then
                          (case intents item of
                             [] \<Rightarrow> (Inl IndexOutOfRange, tr2)
                           | first # _ \<Rightarrow>
                               (let txn = Txn first;
                                    gcArgs = GCRequest
                                      \<lparr>Key = Desc_StartKey r, EndKey = Desc_EndKey r\<rparr>
                                      [TransactionKey st (MetaKey txn) (ID txn)]
                                in case addWriteCmd r tr2 [gcArgs] of
                                     Some pErr \<Rightarrow>
                                       (Inr (), tr2 @ [EvAddWriteCmd [gcArgs],
                                          EvWarning ''could not GC completed transaction'' pErr])
                                   | None \<Rightarrow> (Inr (), tr2 @ [EvAddWriteCmd [gcArgs]])))
                        else (Inr (), tr2)))))"

text \<open>
  The loop of lines 199-267: one submission per iteration, the pool's answer is not
  looked at. The closure of an iteration shares the loop variable with the iterations
  that follow.
\<close>

fun submitItems :: "store \<Rightarrow> timestamp \<Rightarrow> event list \<Rightarrow> intentsWithArg list \<Rightarrow> event list" where
  "submitItems st now tr [] = tr"
| "submitItems st now tr (item # items) =
     submitItems st now
       (tr @ [EvRunAsyncTask (ProcessIntentsTask (args item) (item # items) now)
                (Stopper_RunAsyncTask st tr)]) items"

text \<open>
  What a closure may read when it runs: its own \<open>args\<close> with the intents of any value
  that the loop variable holds from its iteration on (the same value at both reads).
\<close>

definition closureReads :: "request_args \<Rightarrow> intentsWithArg list \<Rightarrow> intentsWithArg list" where
  "closureReads a held = map (\<lambda>item. \<lparr>args = a, intents = intents item\<rparr>) held"

definition processIntentsAsync :: "store \<Rightarrow> event list \<Rightarrow> intentsWithArg list \<Rightarrow> event list" where
  "processIntentsAsync st tr items =
     (if length items = 0 then tr else submitItems st (Clock_Now st tr) tr items)"

section \<open>Reading the trace\<close>

text \<open>The requests that an event carries: a dispatched batch, or the batch inside a submitted task.\<close>

fun eventRequests :: "event \<Rightarrow> request list" where
  "eventRequests (EvRunWithResponse reqs) = reqs"
| "eventRequests (EvAddWriteCmd reqs) = reqs"
| "eventRequests (EvRun reqs) = reqs"
| "eventRequests (EvRunAsyncTask (ResolveLocalTask reqs) accepted) = reqs"
| "eventRequests (EvRunAsyncTask (ResolveRemoteTask reqs) accepted) = reqs"
| "eventRequests (EvRunAsyncTask (ProcessIntentsTask a held now) accepted) = []"
| "eventRequests (EvWarning msg e) = []"

text \<open>The poison flag of a resolve request; the other requests have none.\<close>

fun poisonOf :: "request \<Rightarrow> bool option" where
  "poisonOf (ResolveIntentRequest sp m s poison) = Some poison"
| "poisonOf (ResolveIntentRangeRequest sp m s poison) = Some poison"
| "poisonOf (PushTxnRequest sp pusher pushee pushTo now pushType) = None"
| "poisonOf (GCRequest sp ks) = None"

fun isGCRequest :: "request \<Rightarrow> bool" where
  "isGCRequest (GCRequest sp ks) = True"
| "isGCRequest q = False"

fun isPoolEvent :: "event \<Rightarrow> bool" where
  "isPoolEvent (EvRunAsyncTask t accepted) = True"
| "isPoolEvent ev = False"

section \<open>Concrete collaborators for the examples\<close>

text \<open>
  A replica that holds the keys \<open>a\<close> and \<open>b\<close> and the ranges from \<open>a\<close> up to \<open>b\<close> or
  \<open>c\<close>, and a store whose answers are fixed in advance; the clock advances with the
  trace.
\<close>

definition exSpan :: "key \<Rightarrow> key \<Rightarrow> span" where
  "exSpan k e = \<lparr>Key = k, EndKey = e\<rparr>"

definition exMeta :: "uuid \<Rightarrow> key \<Rightarrow> txn_meta" where
  "exMeta u k = \<lparr>ID = Some u, MetaKey = k, Epoch = 0\<rparr>"

definition exIntent :: "key \<Rightarrow> key \<Rightarrow> uuid \<Rightarrow> transaction_status \<Rightarrow> intent" where
  "exIntent k e u s = \<lparr>Span = exSpan k e, Txn = exMeta u ''rec'', Status = s\<rparr>"

definition exStore :: "(perror + response list) \<Rightarrow> perror option \<Rightarrow> bool \<Rightarrow> store" where
  "exStore pushAnswer runAnswer accepted =
     \<lparr>Clock_Now = (\<lambda>tr. \<lparr>WallTime = 100 + int (length tr), Logical = 0\<rparr>),
      MakePriority = (\<lambda>tr p. p),
      db_RunWithResponse = (\<lambda>tr reqs. pushAnswer),
      db_Run = (\<lambda>tr reqs. runAnswer),
      Stopper_RunAsyncTask = (\<lambda>tr. accepted),
      TransactionKey = (\<lambda>k u. ''txn-'' @ k @ (case u of None \<Rightarrow> [] | Some i \<Rightarrow> i))\<rparr>"

definition exReplica :: "perror option \<Rightarrow> replica" where
  "exReplica writeAnswer =
     \<lparr>ContainsKey = (\<lambda>k. k = ''a'' \<or> k = ''b''),
      ContainsKeyRange = (\<lambda>k e. k = ''a'' \<and> (e = ''b'' \<or> e = ''c'')),
      Desc_StartKey = ''a'',
      Desc_EndKey = ''c'',
      addWriteCmd = (\<lambda>tr reqs. writeAnswer)\<rparr>"

definition exHeader :: "transaction option \<Rightarrow> header" where
  "exHeader t = \<lparr>Timestamp = \<lparr>WallTime = 100, Logical = 0\<rparr>, HeaderTxn = t, UserPriority = 1\<rparr>"

definition exItem :: "rpc_method \<Rightarrow> intent list \<Rightarrow> intentsWithArg" where
  "exItem m xs = \<lparr>args = \<lparr>Method = m, IsReadOnly = False\<rparr>, intents = xs\<rparr>"

definition exNow :: timestamp where
  "exNow = \<lparr>WallTime = 7, Logical = 0\<rparr>"

definition exWiErr :: "intent list \<Rightarrow> write_intent_error" where
  "exWiErr xs = \<lparr>Intents = xs, Resolved = False\<rparr>"

definition exTxn :: "uuid \<Rightarrow> transaction_status \<Rightarrow> transaction" where
  "exTxn u s = \<lparr>TxnMeta = exMeta u ''rec'', Priority = 5, TxnStatus = s\<rparr>"

definition exArgs :: "rpc_method \<Rightarrow> bool \<Rightarrow> request_args" where
  "exArgs m ro = \<lparr>Method = m, IsReadOnly = ro\<rparr>"

lemmas ex_defs = exSpan_def exMeta_def exIntent_def exStore_def exReplica_def exHeader_def
  exItem_def exNow_def exWiErr_def exTxn_def exArgs_def

section \<open>Properties\<close>

subsection \<open>The loops as filters\<close>

lemma partition_foldl:
  "foldl (\<lambda>(pushIntents, resolveIntents) intent.
              if Status intent \<noteq> PENDING
              then (pushIntents, resolveIntents @ [intent])
              else (pushIntents @ [intent], resolveIntents)) (a, b) xs
   = (a @ filter (\<lambda>i. Status i = PENDING) xs, b @ filter (\<lambda>i. Status i \<noteq> PENDING) xs)"
  by (induction xs arbitrary: a b) auto

lemma partitionIntents_filter:
  "partitionIntents xs = (filter (\<lambda>i. Status i = PENDING) xs, filter (\<lambda>i. Status i \<noteq> PENDING) xs)"
  by (simp add: partitionIntents_def partition_foldl)

lemma split_foldl:
  "foldl (\<lambda>(baLocal, reqsRemote) intent.
              case resolveArgs r poison intent of
                (req, local) \<Rightarrow>
                  if local then (baLocal @ [req], reqsRemote)
                  else (baLocal, reqsRemote @ [req])) (a, b) xs
   = (a @ map (\<lambda>i. fst (resolveArgs r poison i)) (filter (\<lambda>i. snd (resolveArgs r poison i)) xs),
      b @ map (\<lambda>i. fst (resolveArgs r poison i)) (filter (\<lambda>i. \<not> snd (resolveArgs r poison i)) xs))"
  by (induction xs arbitrary: a b) (auto split: prod.splits)

lemma splitIntents_filter:
  "splitIntents r poison xs
   = (map (\<lambda>i. fst (resolveArgs r poison i)) (filter (\<lambda>i. snd (resolveArgs r poison i)) xs),
      map (\<lambda>i. fst (resolveArgs r poison i)) (filter (\<lambda>i. \<not> snd (resolveArgs r poison i)) xs))"
  by (simp add: splitIntents_def split_foldl)

lemma applyPushResponses_ok:
  "length ts = length ps \<Longrightarrow>
   applyPushResponses ps (map PushTxnResponse ts @ extra) acc
   = Inr (acc @ map2 (\<lambda>i t. i\<lparr>Txn := TxnMeta t, Status := TxnStatus t\<rparr>) ps ts)"
proof (induction ps arbitrary: ts acc)
  case Nil
  then show ?case by simp
next
  case (Cons p ps)
  then obtain t ts' where "ts = t # ts'" by (cases ts) auto
  with Cons show ?case by simp
qed

lemma maybePush_trace:
  "snd (maybePushTransactions st tr xs h pt)
   = tr @ [EvRunWithResponse (pushRequests st tr (fst (partitionIntents xs)) h pt)]"
  by (simp add: maybePushTransactions_def Let_def split: prod.splits sum.splits)

subsection \<open>The pusher on success and on failure\<close>

lemma map2_Span:
  "length ts = length ps \<Longrightarrow>
   map Span (map2 (\<lambda>i t. i\<lparr>Txn := TxnMeta t, Status := TxnStatus t\<rparr>) ps ts) = map Span ps"
  by (induction ps ts rule: list_induct2') auto

lemma maybePush_success:
  assumes len: "length ts = length (filter (\<lambda>i. Status i = PENDING) xs)"
    and ok: "db_RunWithResponse st tr
               (pushRequests st tr (filter (\<lambda>i. Status i = PENDING) xs) h pt)
             = Inr (map PushTxnResponse ts @ extra)"
  shows "maybePushTransactions st tr xs h pt
         = (Inr (filter (\<lambda>i. Status i \<noteq> PENDING) xs
                   @ map2 (\<lambda>i t. i\<lparr>Txn := TxnMeta t, Status := TxnStatus t\<rparr>)
                       (filter (\<lambda>i. Status i = PENDING) xs) ts, None),
            tr @ [EvRunWithResponse (pushRequests st tr (filter (\<lambda>i. Status i = PENDING) xs) h pt)])"
  using ok applyPushResponses_ok [OF len]
  by (simp add: maybePushTransactions_def partitionIntents_filter)

lemma maybePush_failure:
  assumes "db_RunWithResponse st tr
               (pushRequests st tr (filter (\<lambda>i. Status i = PENDING) xs) h pt) = Inl err"
  shows "maybePushTransactions st tr xs h pt
         = (Inr ([], Some err),
            tr @ [EvRunWithResponse (pushRequests st tr (filter (\<lambda>i. Status i = PENDING) xs) h pt)])"
  using assms by (simp add: maybePushTransactions_def partitionIntents_filter)

subsection \<open>What resolveIntents adds to the trace\<close>

lemma resolveLocal_new:
  "\<exists>new. snd (resolveLocal st r tr L wait) = tr @ new
     \<and> set new \<subseteq> {EvAddWriteCmd L, EvRunAsyncTask (ResolveLocalTask L) True,
                    EvRunAsyncTask (ResolveLocalTask L) False}
     \<and> (wait \<longrightarrow> set new \<subseteq> {EvAddWriteCmd L})
     \<and> (L = [] \<longrightarrow> new = [])"
  by (simp add: resolveLocal_def localAction_def)

lemma resolveRemote_new:
  "\<exists>new. snd (resolveRemote st tr R wait) = tr @ new
     \<and> set new \<subseteq> {EvRun R, EvRunAsyncTask (ResolveRemoteTask R) True,
                    EvRunAsyncTask (ResolveRemoteTask R) False}
     \<and> (wait \<longrightarrow> set new \<subseteq> {EvRun R})
     \<and> (R = [] \<longrightarrow> new = [])"
  by (simp add: resolveRemote_def remoteAction_def)

lemma resolveIntents_new:
  assumes "splitIntents r poison xs = (L, R)"
  shows "\<exists>new. snd (resolveIntents st r tr xs wait poison) = tr @ new
     \<and> set new \<subseteq> {EvAddWriteCmd L, EvRunAsyncTask (ResolveLocalTask L) True,
                    EvRunAsyncTask (ResolveLocalTask L) False,
                    EvRun R, EvRunAsyncTask (ResolveRemoteTask R) True,
                    EvRunAsyncTask (ResolveRemoteTask R) False}
     \<and> (wait \<longrightarrow> set new \<subseteq> {EvAddWriteCmd L, EvRun R})"
proof -
  obtain e1 tr1 where l: "resolveLocal st r tr L wait = (e1, tr1)"
    by (cases "resolveLocal st r tr L wait")
  obtain n1 where n1: "tr1 = tr @ n1"
    "set n1 \<subseteq> {EvAddWriteCmd L, EvRunAsyncTask (ResolveLocalTask L) True,
                    EvRunAsyncTask (ResolveLocalTask L) False}"
    "wait \<longrightarrow> set n1 \<subseteq> {EvAddWriteCmd L}"
    using resolveLocal_new [of st r tr L wait] l by auto
  obtain n2 where n2: "snd (resolveRemote st tr1 R wait) = tr1 @ n2"
    "set n2 \<subseteq> {EvRun R, EvRunAsyncTask (ResolveRemoteTask R) True,
                    EvRunAsyncTask (ResolveRemoteTask R) False}"
    "wait \<longrightarrow> set n2 \<subseteq> {EvRun R}"
    using resolveRemote_new [of st tr1 R wait] by auto
  show ?thesis
  proof (cases e1)
    case None
    then have "snd (resolveIntents st r tr xs wait poison) = tr @ (n1 @ n2)"
      using assms l n1(1) n2(1) by (simp add: resolveIntents_def)
    moreover have "set (n1 @ n2) \<subseteq> {EvAddWriteCmd L, EvRunAsyncTask (ResolveLocalTask L) True,
                    EvRunAsyncTask (ResolveLocalTask L) False,
                    EvRun R, EvRunAsyncTask (ResolveRemoteTask R) True,
                    EvRunAsyncTask (ResolveRemoteTask R) False}"
      using n1(2) n2(2) by auto
    moreover have "wait \<longrightarrow> set (n1 @ n2) \<subseteq> {EvAddWriteCmd L, EvRun R}"
      using n1(3) n2(3) by auto
    ultimately show ?thesis by blast
  next
    case (Some e)
    then have "snd (resolveIntents st r tr xs wait poison) = tr @ n1"
      using assms l n1(1) by (simp add: resolveIntents_def)
    moreover have "set n1 \<subseteq> {EvAddWriteCmd L, EvRunAsyncTask (ResolveLocalTask L) True,
                    EvRunAsyncTask (ResolveLocalTask L) False,
                    EvRun R, EvRunAsyncTask (ResolveRemoteTask R) True,
                    EvRunAsyncTask (ResolveRemoteTask R) False}"
      using n1(2) by auto
    moreover have "wait \<longrightarrow> set n1 \<subseteq> {EvAddWriteCmd L, EvRun R}"
      using n1(3) by auto
    ultimately show ?thesis by blast
  qed
qed

lemma resolveArgs_poison: "poisonOf (fst (resolveArgs r poison i)) = Some poison"
  by (simp add: resolveArgs_def)

lemma splitIntents_poison:
  assumes "splitIntents r poison xs = (L, R)" and "q \<in> set L \<union> set R"
  shows "poisonOf q = Some poison"
  using assms by (auto simp: splitIntents_filter resolveArgs_poison)

lemma pushRequests_poison: "q \<in> set (pushRequests st tr ps h pt) \<Longrightarrow> poisonOf q = None"
  by (auto simp: pushRequests_def pushTxnRequest_def Let_def)

subsection \<open>Poison flags along the conflict path\<close>

lemma resolveIntents_poison:
  assumes "ev \<in> set (drop (length tr) (snd (resolveIntents st r tr xs wait poison)))"
    and "q \<in> set (eventRequests ev)"
  shows "poisonOf q = Some poison"
proof -
  obtain L R where lr: "splitIntents r poison xs = (L, R)"
    by (cases "splitIntents r poison xs")
  from resolveIntents_new [OF lr, of st tr wait] assms(1)
  have "ev \<in> {EvAddWriteCmd L, EvRunAsyncTask (ResolveLocalTask L) True,
                    EvRunAsyncTask (ResolveLocalTask L) False,
                    EvRun R, EvRunAsyncTask (ResolveRemoteTask R) True,
                    EvRunAsyncTask (ResolveRemoteTask R) False}"
    by auto
  with assms(2) have "q \<in> set L \<union> set R" by auto
  then show ?thesis using splitIntents_poison [OF lr] by blast
qed

lemma resolveIntents_prefix:
  "\<exists>new. snd (resolveIntents st r tr xs wait poison) = tr @ new"
proof -
  obtain L R where lr: "splitIntents r poison xs = (L, R)"
    by (cases "splitIntents r poison xs")
  from resolveIntents_new [OF lr, of st tr wait] show ?thesis by blast
qed

lemma processWriteIntentError_trace:
  "\<exists>resolvable new w.
     snd (processWriteIntentError st r tr wiErr a h pt)
       = tr @ [EvRunWithResponse (pushRequests st tr (fst (partitionIntents (Intents wiErr))) h pt)]
            @ new @ w
     \<and> (new = [] \<or> new = drop (length tr + 1)
            (snd (resolveIntents st r
               (tr @ [EvRunWithResponse (pushRequests st tr (fst (partitionIntents (Intents wiErr))) h pt)])
               resolvable False True)))
     \<and> (w = [] \<or> (\<exists>e. w = [EvWarning ''asynchronous resolveIntents failed'' e]))"
proof -
  let ?tr1 = "tr @ [EvRunWithResponse (pushRequests st tr (fst (partitionIntents (Intents wiErr))) h pt)]"
  obtain res tr1 where m: "maybePushTransactions st tr (Intents wiErr) h pt = (res, tr1)"
    by (cases "maybePushTransactions st tr (Intents wiErr) h pt")
  have tr1: "tr1 = ?tr1" using maybePush_trace [of st tr "Intents wiErr" h pt] m by simp
  show ?thesis
  proof (cases res)
    case (Inl p)
    then have "snd (processWriteIntentError st r tr wiErr a h pt) = ?tr1 @ [] @ []"
      using m tr1 by (simp add: processWriteIntentError_def)
    then show ?thesis by (metis append.assoc)
  next
    case (Inr pr)
    obtain resolvable pushErr where pr: "pr = (resolvable, pushErr)" by (cases pr)
    obtain resErr tr2 where ri: "resolveIntents st r ?tr1 resolvable False True = (resErr, tr2)"
      by (cases "resolveIntents st r ?tr1 resolvable False True")
    obtain new where new: "tr2 = ?tr1 @ new"
      using resolveIntents_prefix [of st r ?tr1 resolvable False True] ri by auto
    have d: "new = drop (length tr + 1) (snd (resolveIntents st r ?tr1 resolvable False True))"
      using ri new by simp
    have "snd (processWriteIntentError st r tr wiErr a h pt)
          = ?tr1 @ new @ (case resErr of None \<Rightarrow> []
                          | Some e \<Rightarrow> [EvWarning ''asynchronous resolveIntents failed'' e])"
      using m tr1 Inr pr ri new
      by (simp add: processWriteIntentError_def Let_def split: option.splits)
    moreover have "(case resErr of None \<Rightarrow> []
                          | Some e \<Rightarrow> [EvWarning ''asynchronous resolveIntents failed'' e]) = []
       \<or> (\<exists>e. (case resErr of None \<Rightarrow> []
                          | Some e \<Rightarrow> [EvWarning ''asynchronous resolveIntents failed'' e])
              = [EvWarning ''asynchronous resolveIntents failed'' e])"
      by (cases resErr) auto
    ultimately show ?thesis using d by (metis append.assoc)
  qed
qed

lemma processWriteIntentError_poison:
  assumes "ev \<in> set (drop (length tr) (snd (processWriteIntentError st r tr wiErr a h pt)))"
    and "q \<in> set (eventRequests ev)"
  shows "poisonOf q = None \<or> poisonOf q = Some True"
proof -
  let ?reqs = "pushRequests st tr (fst (partitionIntents (Intents wiErr))) h pt"
  obtain resolvable new w where t:
    "snd (processWriteIntentError st r tr wiErr a h pt) = tr @ [EvRunWithResponse ?reqs] @ new @ w"
    "new = [] \<or> new = drop (length tr + 1)
            (snd (resolveIntents st r (tr @ [EvRunWithResponse ?reqs]) resolvable False True))"
    "w = [] \<or> (\<exists>e. w = [EvWarning ''asynchronous resolveIntents failed'' e])"
    using processWriteIntentError_trace [of st r tr wiErr a h pt] by blast
  from assms(1) t(1) have "ev = EvRunWithResponse ?reqs \<or> ev \<in> set new \<or> ev \<in> set w"
    by auto
  then consider (push) "ev = EvRunWithResponse ?reqs" | (res) "ev \<in> set new" | (warn) "ev \<in> set w"
    by blast
  then show ?thesis
  proof cases
    case push
    with assms(2) show ?thesis using pushRequests_poison by auto
  next
    case res
    with t(2) have "ev \<in> set (drop (length (tr @ [EvRunWithResponse ?reqs]))
            (snd (resolveIntents st r (tr @ [EvRunWithResponse ?reqs]) resolvable False True)))"
      by auto
    from resolveIntents_poison [OF this assms(2)] show ?thesis by simp
  next
    case warn
    with t(3) assms(2) show ?thesis by auto
  qed
qed

subsection \<open>The post-commit closure, case by case\<close>

lemma poison_notGC: "poisonOf q = Some p \<Longrightarrow> \<not> isGCRequest q"
  by (cases q) auto

lemma pushRequests_notGC: "q \<in> set (pushRequests st tr ps h pt) \<Longrightarrow> \<not> isGCRequest q"
  by (auto simp: pushRequests_def pushTxnRequest_def Let_def)

lemma pushRequests_touch:
  "pushRequests st tr ps \<lparr>Timestamp = now, HeaderTxn = None, UserPriority = 0\<rparr> PUSH_TOUCH
   = map (\<lambda>i. PushTxnRequest \<lparr>Key = MetaKey (Txn i), EndKey = []\<rparr>
                 (priorityOnlyTxn (MakePriority st tr 0)) (Txn i) now (Clock_Now st tr) PUSH_TOUCH) ps"
  by (simp add: pushRequests_def pushTxnRequest_def Let_def)

lemma resolveIntents_wait_new:
  "\<exists>new. snd (resolveIntents st r tr xs True poison) = tr @ new
     \<and> (\<forall>ev \<in> set new. \<not> isPoolEvent ev
            \<and> (\<forall>q \<in> set (eventRequests ev). poisonOf q = Some poison \<and> \<not> isGCRequest q))"
proof -
  obtain L R where lr: "splitIntents r poison xs = (L, R)"
    by (cases "splitIntents r poison xs")
  from resolveIntents_new [OF lr, of st tr True]
  obtain new where n: "snd (resolveIntents st r tr xs True poison) = tr @ new"
    "set new \<subseteq> {EvAddWriteCmd L, EvRun R}" by auto
  have "\<not> isPoolEvent ev \<and> (\<forall>q \<in> set (eventRequests ev). poisonOf q = Some poison \<and> \<not> isGCRequest q)"
    if "ev \<in> set new" for ev
  proof -
    from that n(2) have e: "ev = EvAddWriteCmd L \<or> ev = EvRun R" by auto
    then have "\<not> isPoolEvent ev" by auto
    moreover have "poisonOf q = Some poison \<and> \<not> isGCRequest q" if "q \<in> set (eventRequests ev)" for q
    proof -
      from that e have "q \<in> set L \<union> set R" by auto
      then have "poisonOf q = Some poison" using splitIntents_poison [OF lr] by blast
      then show ?thesis using poison_notGC by blast
    qed
    ultimately show ?thesis by blast
  qed
  with n(1) show ?thesis by blast
qed

lemma task_panic:
  assumes "maybePushTransactions st tr (intents item)
             \<lparr>Timestamp = now, HeaderTxn = None, UserPriority = 0\<rparr> PUSH_TOUCH = (Inl p, tr1)"
  shows "processIntentsTask st r tr now item = (Inl p, tr1)"
  using assms by (simp add: processIntentsTask_def)

lemma task_resolve_failed:
  assumes "maybePushTransactions st tr (intents item)
             \<lparr>Timestamp = now, HeaderTxn = None, UserPriority = 0\<rparr> PUSH_TOUCH
           = (Inr (resolvable, pushErr), tr1)"
    and "resolveIntents st r tr1 resolvable True False = (Some pErr, tr2)"
  shows "processIntentsTask st r tr now item
         = (Inr (), tr2 @ [EvWarning ''failed to resolve intents'' pErr])"
  using assms by (simp add: processIntentsTask_def)

lemma task_push_failed:
  assumes "maybePushTransactions st tr (intents item)
             \<lparr>Timestamp = now, HeaderTxn = None, UserPriority = 0\<rparr> PUSH_TOUCH
           = (Inr (resolvable, Some pe), tr1)"
    and "resolveIntents st r tr1 resolvable True False = (None, tr2)"
  shows "processIntentsTask st r tr now item
         = (Inr (), tr2 @ [EvWarning ''failed to push during intent resolution'' pe])"
  using assms by (simp add: processIntentsTask_def)

lemma task_other_method:
  assumes "maybePushTransactions st tr (intents item)
             \<lparr>Timestamp = now, HeaderTxn = None, UserPriority = 0\<rparr> PUSH_TOUCH
           = (Inr (resolvable, None), tr1)"
    and "resolveIntents st r tr1 resolvable True False = (None, tr2)"
    and "Method (args item) \<noteq> EndTransaction"
  shows "processIntentsTask st r tr now item = (Inr (), tr2)"
  using assms by (simp add: processIntentsTask_def)

lemma task_gc_empty:
  assumes "maybePushTransactions st tr (intents item)
             \<lparr>Timestamp = now, HeaderTxn = None, UserPriority = 0\<rparr> PUSH_TOUCH
           = (Inr (resolvable, None), tr1)"
    and "resolveIntents st r tr1 resolvable True False = (None, tr2)"
    and "Method (args item) = EndTransaction" and "intents item = []"
  shows "processIntentsTask st r tr now item = (Inl IndexOutOfRange, tr2)"
  using assms by (simp add: processIntentsTask_def)

lemma task_gc:
  assumes "maybePushTransactions st tr (intents item)
             \<lparr>Timestamp = now, HeaderTxn = None, UserPriority = 0\<rparr> PUSH_TOUCH
           = (Inr (resolvable, None), tr1)"
    and "resolveIntents st r tr1 resolvable True False = (None, tr2)"
    and "Method (args item) = EndTransaction" and "intents item = first # others"
  shows "processIntentsTask st r tr now item
         = (Inr (), tr2 @ EvAddWriteCmd
               [GCRequest \<lparr>Key = Desc_StartKey r, EndKey = Desc_EndKey r\<rparr>
                  [TransactionKey st (MetaKey (Txn first)) (ID (Txn first))]]
             # (case addWriteCmd r tr2
                       [GCRequest \<lparr>Key = Desc_StartKey r, EndKey = Desc_EndKey r\<rparr>
                          [TransactionKey st (MetaKey (Txn first)) (ID (Txn first))]] of
                  None \<Rightarrow> []
                | Some e \<Rightarrow> [EvWarning ''could not GC completed transaction'' e]))"
  using assms by (simp add: processIntentsTask_def Let_def split: option.splits)

lemma maybePush_empty:
  assumes "db_RunWithResponse st tr [] = Inr br"
  shows "maybePushTransactions st tr [] h pt = (Inr ([], None), tr @ [EvRunWithResponse []])"
  using assms by (simp add: maybePushTransactions_def partitionIntents_filter pushRequests_def)

lemma processIntentsTask_poison:
  assumes "ev \<in> set (drop (length tr) (snd (processIntentsTask st r tr now item)))"
    and "q \<in> set (eventRequests ev)"
  shows "poisonOf q = None \<or> poisonOf q = Some False"
proof -
  let ?h = "\<lparr>Timestamp = now, HeaderTxn = None, UserPriority = 0\<rparr>"
  let ?reqs = "pushRequests st tr (fst (partitionIntents (intents item))) ?h PUSH_TOUCH"
  let ?tr1 = "tr @ [EvRunWithResponse ?reqs]"
  obtain res tr1 where m: "maybePushTransactions st tr (intents item) ?h PUSH_TOUCH = (res, tr1)"
    by (cases "maybePushTransactions st tr (intents item) ?h PUSH_TOUCH")
  have tr1: "tr1 = ?tr1" using maybePush_trace [of st tr "intents item" ?h PUSH_TOUCH] m by simp
  have push: "poisonOf q = None" if "ev = EvRunWithResponse ?reqs"
    using that assms(2) pushRequests_poison by auto
  show ?thesis
  proof (cases res)
    case (Inl p)
    with task_panic [of st tr item now p tr1 r] m tr1 assms(1)
    have "ev = EvRunWithResponse ?reqs" by simp
    then show ?thesis using push by simp
  next
    case (Inr pr)
    obtain resolvable pushErr where pr: "pr = (resolvable, pushErr)" by (cases pr)
    note m' = m [unfolded Inr pr]
    obtain resErr tr2 where rs: "resolveIntents st r tr1 resolvable True False = (resErr, tr2)"
      by (cases "resolveIntents st r tr1 resolvable True False")
    obtain new where new: "tr2 = tr1 @ new"
      "\<forall>ev \<in> set new. \<not> isPoolEvent ev
            \<and> (\<forall>q \<in> set (eventRequests ev). poisonOf q = Some False \<and> \<not> isGCRequest q)"
      using resolveIntents_wait_new [of st r tr1 resolvable False] rs by auto
    have "\<exists>g. snd (processIntentsTask st r tr now item) = tr2 @ g
            \<and> (\<forall>ev \<in> set g. \<forall>q \<in> set (eventRequests ev). poisonOf q = None)"
    proof (cases resErr)
      case (Some e)
      with task_resolve_failed [OF m'] rs show ?thesis by simp
    next
      case None
      note rs' = rs [unfolded None]
      show ?thesis
      proof (cases pushErr)
        case (Some pe)
        with task_push_failed [of st tr item now resolvable pe tr1 r tr2] m' rs'
        show ?thesis by simp
      next
        case None
        note m'' = m' [unfolded None]
        show ?thesis
        proof (cases "Method (args item) = EndTransaction")
          case False
          from task_other_method [OF m'' rs' False] show ?thesis by simp
        next
          case True
          show ?thesis
          proof (cases "intents item")
            case Nil
            from task_gc_empty [OF m'' rs' True Nil] show ?thesis by simp
          next
            case (Cons first others)
            from task_gc [OF m'' rs' True Cons] show ?thesis
              by (auto split: option.splits)
          qed
        qed
      qed
    qed
    then obtain g where g: "snd (processIntentsTask st r tr now item) = tr2 @ g"
      "\<forall>ev \<in> set g. \<forall>q \<in> set (eventRequests ev). poisonOf q = None" by blast
    from assms(1) g(1) new(1) tr1
    have "ev = EvRunWithResponse ?reqs \<or> ev \<in> set new \<or> ev \<in> set g" by auto
    then show ?thesis using push new(2) g(2) assms(2) by blast
  qed
qed

subsection \<open>The value returned on a conflict\<close>

lemma processWriteIntentError_value:
  "fst (processWriteIntentError st r tr wiErr a h pt)
   = (case fst (maybePushTransactions st tr (Intents wiErr) h pt) of
        Inl p \<Rightarrow> Inl p
      | Inr (resolvable, pushErr) \<Rightarrow>
          (case pushErr of
             Some pe \<Rightarrow>
               if (case HeaderTxn h of None \<Rightarrow> False | Some t \<Rightarrow> ID (TxnMeta t) \<noteq> None)
                  \<and> \<not> IsReadOnly a
               then Inr pe else Inr (WriteIntentError wiErr)
           | None \<Rightarrow> Inr (WriteIntentError (wiErr\<lparr>Resolved := True\<rparr>))))"
  by (simp add: processWriteIntentError_def Let_def split: prod.splits sum.splits option.splits)

lemma maybePush_ignores_resolver:
  "maybePushTransactions (st\<lparr>db_Run := run, Stopper_RunAsyncTask := pool\<rparr>) tr xs h pt
   = maybePushTransactions st tr xs h pt"
  by (cases "HeaderTxn h")
    (simp_all add: maybePushTransactions_def pushRequests_def partitionIntents_filter Let_def)

lemma processWriteIntentError_logs:
  assumes "maybePushTransactions st tr (Intents wiErr) h pt = (Inr (resolvable, pushErr), tr1)"
    and "resolveIntents st r tr1 resolvable False True = (Some e, tr2)"
  shows "snd (processWriteIntentError st r tr wiErr a h pt)
         = tr2 @ [EvWarning ''asynchronous resolveIntents failed'' e]"
  using assms by (simp add: processWriteIntentError_def Let_def split: option.splits)

subsection \<open>Unfolding the model on concrete inputs\<close>

lemmas resolve_defs = resolveIntents_def splitIntents_filter resolveArgs_def resolveLocal_def
  resolveRemote_def localAction_def remoteAction_def

lemmas push_defs = maybePushTransactions_def partitionIntents_filter pushRequests_def
  pushTxnRequest_def priorityOnlyTxn_def

text \<open>
  The closure body on the value it reads: the push batch holds one \<open>PushTxnRequest\<close> per
  pending intent, of type PUSH\_TOUCH, with \<open>PushTo\<close> the captured time; then
  \<open>resolveIntents\<close> runs with wait = true and poison = false; a resolve error or a push
  error is logged and ends the closure; only when both succeeded and the method of its
  \<open>args\<close> is EndTransaction is one GC request given to the replica's write path, over
  the replica's span, for the transaction key of the first intent read; an error of
  that command is logged.
\<close>

lemma processIntentsTask_steps:
  "(let h = \<lparr>Timestamp = now, HeaderTxn = None, UserPriority = 0\<rparr>;
          pushed = maybePushTransactions st tr (intents item) h PUSH_TOUCH;
          out = processIntentsTask st r tr now item
      in snd pushed
           = tr @ [EvRunWithResponse
                (map (\<lambda>i. PushTxnRequest \<lparr>Key = MetaKey (Txn i), EndKey = []\<rparr>
                             (priorityOnlyTxn (MakePriority st tr 0)) (Txn i) now
                             (Clock_Now st tr) PUSH_TOUCH)
                   (filter (\<lambda>i. Status i = PENDING) (intents item)))]
       \<and> (\<forall>p. fst pushed = Inl p \<longrightarrow> out = (Inl p, snd pushed))
       \<and> (\<forall>resolvable pushErr. fst pushed = Inr (resolvable, pushErr) \<longrightarrow>
            (let resolved = resolveIntents st r (snd pushed) resolvable True False
             in (\<exists>new. snd resolved = snd pushed @ new
                   \<and> (\<forall>ev \<in> set new. \<not> isPoolEvent ev
                         \<and> (\<forall>q \<in> set (eventRequests ev).
                               poisonOf q = Some False \<and> \<not> isGCRequest q)))
              \<and> (\<forall>e. fst resolved = Some e \<longrightarrow>
                    out = (Inr (), snd resolved @ [EvWarning ''failed to resolve intents'' e]))
              \<and> (\<forall>e. fst resolved = None \<and> pushErr = Some e \<longrightarrow>
                    out = (Inr (), snd resolved
                             @ [EvWarning ''failed to push during intent resolution'' e]))
              \<and> (fst resolved = None \<and> pushErr = None \<and> Method (args item) \<noteq> EndTransaction
                    \<longrightarrow> out = (Inr (), snd resolved))
              \<and> (\<forall>first others.
                    fst resolved = None \<and> pushErr = None \<and> Method (args item) = EndTransaction
                    \<and> intents item = first # others \<longrightarrow>
                    (let gc = GCRequest \<lparr>Key = Desc_StartKey r, EndKey = Desc_EndKey r\<rparr>
                                [TransactionKey st (MetaKey (Txn first)) (ID (Txn first))]
                     in out = (Inr (), snd resolved @ EvAddWriteCmd [gc]
                                 # (case addWriteCmd r (snd resolved) [gc] of
                                      None \<Rightarrow> []
                                    | Some e \<Rightarrow>
                                        [EvWarning ''could not GC completed transaction'' e])))))))"
proof -
  let ?h = "\<lparr>Timestamp = now, HeaderTxn = None, UserPriority = 0\<rparr>"
  let ?pushed = "maybePushTransactions st tr (intents item) ?h PUSH_TOUCH"
  let ?out = "processIntentsTask st r tr now item"
  have p1: "snd ?pushed
           = tr @ [EvRunWithResponse
                (map (\<lambda>i. PushTxnRequest \<lparr>Key = MetaKey (Txn i), EndKey = []\<rparr>
                             (priorityOnlyTxn (MakePriority st tr 0)) (Txn i) now
                             (Clock_Now st tr) PUSH_TOUCH)
                   (filter (\<lambda>i. Status i = PENDING) (intents item)))]"
    by (simp only: maybePush_trace pushRequests_touch partitionIntents_filter fst_conv)
  have p2: "?out = (Inl p, snd ?pushed)" if "fst ?pushed = Inl p" for p
    using task_panic [of st tr item now p "snd ?pushed" r] that
    by (metis prod.collapse)
  have p3: "let resolved = resolveIntents st r (snd ?pushed) resolvable True False
             in (\<exists>new. snd resolved = snd ?pushed @ new
                   \<and> (\<forall>ev \<in> set new. \<not> isPoolEvent ev
                         \<and> (\<forall>q \<in> set (eventRequests ev).
                               poisonOf q = Some False \<and> \<not> isGCRequest q)))
              \<and> (\<forall>e. fst resolved = Some e \<longrightarrow>
                    ?out = (Inr (), snd resolved @ [EvWarning ''failed to resolve intents'' e]))
              \<and> (\<forall>e. fst resolved = None \<and> pushErr = Some e \<longrightarrow>
                    ?out = (Inr (), snd resolved
                             @ [EvWarning ''failed to push during intent resolution'' e]))
              \<and> (fst resolved = None \<and> pushErr = None \<and> Method (args item) \<noteq> EndTransaction
                    \<longrightarrow> ?out = (Inr (), snd resolved))
              \<and> (\<forall>first others.
                    fst resolved = None \<and> pushErr = None \<and> Method (args item) = EndTransaction
                    \<and> intents item = first # others \<longrightarrow>
                    (let gc = GCRequest \<lparr>Key = Desc_StartKey r, EndKey = Desc_EndKey r\<rparr>
                                [TransactionKey st (MetaKey (Txn first)) (ID (Txn first))]
                     in ?out = (Inr (), snd resolved @ EvAddWriteCmd [gc]
                                 # (case addWriteCmd r (snd resolved) [gc] of
                                      None \<Rightarrow> []
                                    | Some e \<Rightarrow>
                                        [EvWarning ''could not GC completed transaction'' e]))))"
    if f: "fst ?pushed = Inr (resolvable, pushErr)" for resolvable pushErr
  proof -
    let ?res = "resolveIntents st r (snd ?pushed) resolvable True False"
    have m: "?pushed = (Inr (resolvable, pushErr), snd ?pushed)"
      using f by (metis prod.collapse)
    have rs: "?res = (fst ?res, snd ?res)" by simp
    have a: "\<exists>new. snd ?res = snd ?pushed @ new
                   \<and> (\<forall>ev \<in> set new. \<not> isPoolEvent ev
                         \<and> (\<forall>q \<in> set (eventRequests ev).
                               poisonOf q = Some False \<and> \<not> isGCRequest q))"
      by (rule resolveIntents_wait_new)
    have b: "?out = (Inr (), snd ?res @ [EvWarning ''failed to resolve intents'' e])"
      if "fst ?res = Some e" for e
      using task_resolve_failed [OF m, of r e "snd ?res"] that rs by metis
    have c: "?out = (Inr (), snd ?res @ [EvWarning ''failed to push during intent resolution'' e])"
      if "fst ?res = None \<and> pushErr = Some e" for e
      using task_push_failed [of st tr item now resolvable e "snd ?pushed" r "snd ?res"] that m rs
      by metis
    have d: "?out = (Inr (), snd ?res)"
      if "fst ?res = None \<and> pushErr = None \<and> Method (args item) \<noteq> EndTransaction"
      using task_other_method [of st tr item now resolvable "snd ?pushed" r "snd ?res"] that m rs
      by metis
    have e: "let gc = GCRequest \<lparr>Key = Desc_StartKey r, EndKey = Desc_EndKey r\<rparr>
                                [TransactionKey st (MetaKey (Txn first)) (ID (Txn first))]
                     in ?out = (Inr (), snd ?res @ EvAddWriteCmd [gc]
                                 # (case addWriteCmd r (snd ?res) [gc] of
                                      None \<Rightarrow> []
                                    | Some e \<Rightarrow>
                                        [EvWarning ''could not GC completed transaction'' e]))"
      if "fst ?res = None \<and> pushErr = None \<and> Method (args item) = EndTransaction
                    \<and> intents item = first # others" for first others
    proof -
      from that m have m': "?pushed = (Inr (resolvable, None), snd ?pushed)" by simp
      from that rs have rs': "?res = (None, snd ?res)" by metis
      from that have t: "Method (args item) = EndTransaction" and i: "intents item = first # others"
        by simp_all
      from task_gc [OF m' rs' t i] show ?thesis by (simp only: Let_def)
    qed
    show ?thesis unfolding Let_def using a b c d e [unfolded Let_def] by (intro conjI allI impI)
  qed
  show ?thesis
    unfolding Let_def
    apply (intro conjI)
      apply (rule p1)
     apply (intro allI impI, erule p2)
    apply (intro allI impI, erule p3 [unfolded Let_def])
    done
qed

subsection \<open>The claims\<close>

lemma splitIntents_Nil: "splitIntents r poison [] = ([], [])"
  by (simp add: splitIntents_def)

text \<open>
  C10. A call of \<open>resolveIntents\<close> with an empty intent list dispatches nothing (the trace
  is unchanged: no local batch, no remote batch, no submission to the pool) and returns
  nil, whatever \<open>wait\<close> and \<open>poison\<close> are.
\<close>

theorem resolveIntents_empty:
  "resolveIntents st r tr [] wait poison = (None, tr)"
  by (simp add: resolveIntents_def splitIntents_Nil resolveLocal_def resolveRemote_def)

text \<open>
  C6. The partition step puts every input intent in exactly one class: push-needed iff
  its status is PENDING, immediately resolvable otherwise. When the push batch succeeds
  with one \<open>PushTxnResponse\<close> per push-needed intent, the returned list is the
  finalized intents unchanged followed by the pushed intents, each with \<open>Txn\<close> and
  \<open>Status\<close> taken from its own response; it has as many entries as the input and holds
  every input span exactly once.
\<close>

theorem maybePushTransactions_classification:
  "partitionIntents xs
     = (filter (\<lambda>i. Status i = PENDING) xs, filter (\<lambda>i. Status i \<noteq> PENDING) xs)
   \<and> mset (fst (partitionIntents xs)) + mset (snd (partitionIntents xs)) = mset xs
   \<and> (length ts = length (fst (partitionIntents xs))
        \<and> db_RunWithResponse st tr (pushRequests st tr (fst (partitionIntents xs)) h pt)
            = Inr (map PushTxnResponse ts @ extra)
      \<longrightarrow> (let resolvable =
                  snd (partitionIntents xs)
                  @ map2 (\<lambda>i t. i\<lparr>Txn := TxnMeta t, Status := TxnStatus t\<rparr>)
                      (fst (partitionIntents xs)) ts
            in fst (maybePushTransactions st tr xs h pt) = Inr (resolvable, None)
               \<and> length resolvable = length xs
               \<and> mset (map Span resolvable) = mset (map Span xs)))"
proof (intro conjI impI)
  show "partitionIntents xs
     = (filter (\<lambda>i. Status i = PENDING) xs, filter (\<lambda>i. Status i \<noteq> PENDING) xs)"
    by (rule partitionIntents_filter)
  show part: "mset (fst (partitionIntents xs)) + mset (snd (partitionIntents xs)) = mset xs"
    by (simp add: partitionIntents_filter)
  assume h: "length ts = length (fst (partitionIntents xs))
        \<and> db_RunWithResponse st tr (pushRequests st tr (fst (partitionIntents xs)) h pt)
            = Inr (map PushTxnResponse ts @ extra)"
  then have len: "length ts = length (filter (\<lambda>i. Status i = PENDING) xs)"
    and ok: "db_RunWithResponse st tr
               (pushRequests st tr (filter (\<lambda>i. Status i = PENDING) xs) h pt)
             = Inr (map PushTxnResponse ts @ extra)"
    by (simp_all add: partitionIntents_filter)
  let ?fin = "filter (\<lambda>i. Status i \<noteq> PENDING) xs"
  let ?pen = "filter (\<lambda>i. Status i = PENDING) xs"
  let ?new = "map2 (\<lambda>i t. i\<lparr>Txn := TxnMeta t, Status := TxnStatus t\<rparr>) ?pen ts"
  have sp: "mset (map Span ?fin) + mset (map Span ?pen) = mset (map Span xs)"
    by (induction xs) auto
  have l: "length (?fin @ ?new) = length xs"
    using len sum_length_filter_compl [of "\<lambda>i. Status i = PENDING" xs] by simp
  have "map Span (?fin @ ?new) = map Span ?fin @ map Span ?pen"
    using map2_Span [OF len] by (simp only: map_append)
  then have m: "mset (map Span (?fin @ ?new)) = mset (map Span xs)"
    using sp by (simp only: mset_append)
  have r: "fst (maybePushTransactions st tr xs h pt) = Inr (?fin @ ?new, None)"
    using maybePush_success [OF len ok] by (simp only: fst_conv)
  show "let resolvable =
                  snd (partitionIntents xs)
                  @ map2 (\<lambda>i t. i\<lparr>Txn := TxnMeta t, Status := TxnStatus t\<rparr>)
                      (fst (partitionIntents xs)) ts
            in fst (maybePushTransactions st tr xs h pt) = Inr (resolvable, None)
               \<and> length resolvable = length xs
               \<and> mset (map Span resolvable) = mset (map Span xs)"
    unfolding Let_def partitionIntents_filter fst_conv snd_conv
    using r l m by (intro conjI)
qed

theorem maybePushTransactions_classification_witness:
  "(let xs = [exIntent ''a'' [] ''t1'' COMMITTED, exIntent ''b'' [] ''t2'' PENDING,
              exIntent ''c'' ''d'' ''t3'' ABORTED];
        pushee = \<lparr>TxnMeta = exMeta ''t2'' ''rec2'', Priority = 3, TxnStatus = ABORTED\<rparr>
    in partitionIntents xs = ([exIntent ''b'' [] ''t2'' PENDING],
          [exIntent ''a'' [] ''t1'' COMMITTED, exIntent ''c'' ''d'' ''t3'' ABORTED])
       \<and> fst (maybePushTransactions (exStore (Inr [PushTxnResponse pushee]) None True) [] xs
                (exHeader None) PUSH_ABORT)
         = Inr ([exIntent ''a'' [] ''t1'' COMMITTED, exIntent ''c'' ''d'' ''t3'' ABORTED,
                 \<lparr>Span = exSpan ''b'' [], Txn = exMeta ''t2'' ''rec2'', Status = ABORTED\<rparr>], None))"
  using maybePushTransactions_classification
    [of "[exIntent ''a'' [] ''t1'' COMMITTED, exIntent ''b'' [] ''t2'' PENDING,
              exIntent ''c'' ''d'' ''t3'' ABORTED]"
        "[\<lparr>TxnMeta = exMeta ''t2'' ''rec2'', Priority = 3, TxnStatus = ABORTED\<rparr>]"
        "exStore (Inr [PushTxnResponse \<lparr>TxnMeta = exMeta ''t2'' ''rec2'', Priority = 3, TxnStatus = ABORTED\<rparr>]) None True"
        "[]" "exHeader None" PUSH_ABORT "[]"]
  by (simp add: ex_defs Let_def)

text \<open>
  C2 (the code departs from the claim). The intent set is one COMMITTED and one PENDING
  intent and the push batch fails: the source returns a nil slice with the error
  (line 174, under the note "return resolveIntents even on error"), so the COMMITTED
  intent is not in the returned list.
\<close>

theorem maybePushTransactions_drops_finalized_on_error:
  "fst (maybePushTransactions (exStore (Inl (OtherError ''push failed'')) None True) []
          [exIntent ''a'' [] ''t1'' COMMITTED, exIntent ''b'' [] ''t2'' PENDING]
          (exHeader None) PUSH_ABORT)
   = Inr ([], Some (OtherError ''push failed''))"
  by (simp add: maybePushTransactions_def partitionIntents_filter ex_defs)

text \<open>
  C4. For each intent, an empty \<open>EndKey\<close> gives a \<open>ResolveIntentRequest\<close> that is local
  iff \<open>ContainsKey\<close> holds of its key, and a non-empty \<open>EndKey\<close> gives a
  \<open>ResolveIntentRangeRequest\<close> that is local iff \<open>ContainsKeyRange\<close> holds of the whole
  range. The local batch is the requests of the local intents and the remote batch the
  requests of all the others, both in input order, so together they hold every request
  exactly once; and every dispatch or submission made by \<open>resolveIntents\<close> carries
  either that one local batch or that one remote batch.
\<close>

theorem resolveIntents_split:
  "resolveArgs r poison i
     = (if EndKey (Span i) = []
        then (ResolveIntentRequest (Span i) (Txn i) (Status i) poison,
              ContainsKey r (Key (Span i)))
        else (ResolveIntentRangeRequest (Span i) (Txn i) (Status i) poison,
              ContainsKeyRange r (Key (Span i)) (EndKey (Span i))))
   \<and> splitIntents r poison xs
       = (map (\<lambda>i. fst (resolveArgs r poison i)) (filter (\<lambda>i. snd (resolveArgs r poison i)) xs),
          map (\<lambda>i. fst (resolveArgs r poison i)) (filter (\<lambda>i. \<not> snd (resolveArgs r poison i)) xs))
   \<and> mset (fst (splitIntents r poison xs)) + mset (snd (splitIntents r poison xs))
       = mset (map (\<lambda>i. fst (resolveArgs r poison i)) xs)
   \<and> (\<forall>ev \<in> set (drop (length tr) (snd (resolveIntents st r tr xs wait poison))).
        ev = EvAddWriteCmd (fst (splitIntents r poison xs))
        \<or> (\<exists>b. ev = EvRunAsyncTask (ResolveLocalTask (fst (splitIntents r poison xs))) b)
        \<or> ev = EvRun (snd (splitIntents r poison xs))
        \<or> (\<exists>b. ev = EvRunAsyncTask (ResolveRemoteTask (snd (splitIntents r poison xs))) b))"
proof (intro conjI)
  show "resolveArgs r poison i
     = (if EndKey (Span i) = []
        then (ResolveIntentRequest (Span i) (Txn i) (Status i) poison,
              ContainsKey r (Key (Span i)))
        else (ResolveIntentRangeRequest (Span i) (Txn i) (Status i) poison,
              ContainsKeyRange r (Key (Span i)) (EndKey (Span i))))"
    by (simp add: resolveArgs_def)
  show "splitIntents r poison xs
       = (map (\<lambda>i. fst (resolveArgs r poison i)) (filter (\<lambda>i. snd (resolveArgs r poison i)) xs),
          map (\<lambda>i. fst (resolveArgs r poison i)) (filter (\<lambda>i. \<not> snd (resolveArgs r poison i)) xs))"
    by (rule splitIntents_filter)
  show "mset (fst (splitIntents r poison xs)) + mset (snd (splitIntents r poison xs))
       = mset (map (\<lambda>i. fst (resolveArgs r poison i)) xs)"
    unfolding splitIntents_filter fst_conv snd_conv by (induction xs) auto
  obtain L R where lr: "splitIntents r poison xs = (L, R)"
    by (cases "splitIntents r poison xs")
  from resolveIntents_new [OF lr, of st tr wait]
  show "\<forall>ev \<in> set (drop (length tr) (snd (resolveIntents st r tr xs wait poison))).
        ev = EvAddWriteCmd (fst (splitIntents r poison xs))
        \<or> (\<exists>b. ev = EvRunAsyncTask (ResolveLocalTask (fst (splitIntents r poison xs))) b)
        \<or> ev = EvRun (snd (splitIntents r poison xs))
        \<or> (\<exists>b. ev = EvRunAsyncTask (ResolveRemoteTask (snd (splitIntents r poison xs))) b)"
    unfolding lr fst_conv snd_conv by auto
qed

theorem resolveIntents_split_witness:
  "(let xs = [exIntent ''a'' [] ''t1'' COMMITTED, exIntent ''z'' [] ''t1'' COMMITTED,
              exIntent ''a'' ''c'' ''t2'' ABORTED, exIntent ''b'' ''d'' ''t2'' ABORTED]
    in splitIntents (exReplica None) True xs
       = ([ResolveIntentRequest (exSpan ''a'' []) (exMeta ''t1'' ''rec'') COMMITTED True,
           ResolveIntentRangeRequest (exSpan ''a'' ''c'') (exMeta ''t2'' ''rec'') ABORTED True],
          [ResolveIntentRequest (exSpan ''z'' []) (exMeta ''t1'' ''rec'') COMMITTED True,
           ResolveIntentRangeRequest (exSpan ''b'' ''d'') (exMeta ''t2'' ''rec'') ABORTED True])
     \<and> snd (resolveIntents (exStore (Inr []) None True) (exReplica None) [] xs True True)
       = [EvAddWriteCmd (fst (splitIntents (exReplica None) True xs)),
          EvRun (snd (splitIntents (exReplica None) True xs))])"
  using resolveIntents_split
    [of "exReplica None" True "exIntent ''a'' [] ''t1'' COMMITTED"
        "[exIntent ''a'' [] ''t1'' COMMITTED, exIntent ''z'' [] ''t1'' COMMITTED,
              exIntent ''a'' ''c'' ''t2'' ABORTED, exIntent ''b'' ''d'' ''t2'' ABORTED]"
        "[]" "exStore (Inr []) None True" True]
  by (simp add: Let_def ex_defs resolveArgs_def resolveIntents_def resolveLocal_def
      resolveRemote_def localAction_def remoteAction_def)

text \<open>
  C9. The garbage-collection step reads \<open>item.intents[0]\<close> without a length check. For
  an item whose method is EndTransaction and whose intent list is empty, once the (empty)
  push batch has succeeded the closure reaches that step and the read is out of bounds.
  With a non-empty intent list and a push batch answered by one \<open>PushTxnResponse\<close> per
  pending intent, the closure ends without a panic.
\<close>

theorem processIntentsTask_first_intent:
  "(Method (args item) = EndTransaction \<and> intents item = []
      \<and> db_RunWithResponse st tr [] = Inr br
    \<longrightarrow> fst (processIntentsTask st r tr now item) = Inl IndexOutOfRange)
   \<and> (intents item \<noteq> []
      \<and> length ts = length (filter (\<lambda>i. Status i = PENDING) (intents item))
      \<and> db_RunWithResponse st tr
           (pushRequests st tr (filter (\<lambda>i. Status i = PENDING) (intents item))
              \<lparr>Timestamp = now, HeaderTxn = None, UserPriority = 0\<rparr> PUSH_TOUCH)
         = Inr (map PushTxnResponse ts @ extra)
    \<longrightarrow> fst (processIntentsTask st r tr now item) = Inr ())"
proof (intro conjI impI)
  assume a: "Method (args item) = EndTransaction \<and> intents item = []
      \<and> db_RunWithResponse st tr [] = Inr br"
  then have m: "maybePushTransactions st tr (intents item)
             \<lparr>Timestamp = now, HeaderTxn = None, UserPriority = 0\<rparr> PUSH_TOUCH
           = (Inr ([], None), tr @ [EvRunWithResponse []])"
    using maybePush_empty [of st tr br] by simp
  have rs: "resolveIntents st r (tr @ [EvRunWithResponse []]) [] True False
            = (None, tr @ [EvRunWithResponse []])"
    by (simp add: resolveIntents_def splitIntents_def resolveLocal_def resolveRemote_def)
  from task_gc_empty [OF m rs] a
  show "fst (processIntentsTask st r tr now item) = Inl IndexOutOfRange" by simp
next
  let ?h = "\<lparr>Timestamp = now, HeaderTxn = None, UserPriority = 0\<rparr>"
  let ?pen = "filter (\<lambda>i. Status i = PENDING) (intents item)"
  assume b: "intents item \<noteq> []
      \<and> length ts = length ?pen
      \<and> db_RunWithResponse st tr (pushRequests st tr ?pen ?h PUSH_TOUCH)
         = Inr (map PushTxnResponse ts @ extra)"
  then have len: "length ts = length ?pen"
    and ok: "db_RunWithResponse st tr (pushRequests st tr ?pen ?h PUSH_TOUCH)
         = Inr (map PushTxnResponse ts @ extra)" by simp_all
  note m = maybePush_success [OF len ok]
  obtain first others where f: "intents item = first # others"
    using b by (cases "intents item") auto
  obtain resErr tr2 where rs:
    "resolveIntents st r (tr @ [EvRunWithResponse (pushRequests st tr ?pen ?h PUSH_TOUCH)])
       (filter (\<lambda>i. Status i \<noteq> PENDING) (intents item)
          @ map2 (\<lambda>i t. i\<lparr>Txn := TxnMeta t, Status := TxnStatus t\<rparr>) ?pen ts) True False
     = (resErr, tr2)"
    by (cases "resolveIntents st r (tr @ [EvRunWithResponse (pushRequests st tr ?pen ?h PUSH_TOUCH)])
       (filter (\<lambda>i. Status i \<noteq> PENDING) (intents item)
          @ map2 (\<lambda>i t. i\<lparr>Txn := TxnMeta t, Status := TxnStatus t\<rparr>) ?pen ts) True False")
  show "fst (processIntentsTask st r tr now item) = Inr ()"
  proof (cases resErr)
    case (Some e)
    with task_resolve_failed [OF m] rs show ?thesis by simp
  next
    case None
    show ?thesis
    proof (cases "Method (args item) = EndTransaction")
      case True
      from task_gc [OF m _ True f] rs None show ?thesis by simp
    next
      case False
      from task_other_method [OF m _ False] rs None show ?thesis by simp
    qed
  qed
qed

theorem processIntentsTask_first_intent_witness:
  "fst (processIntentsTask (exStore (Inr []) None True) (exReplica None) [] exNow
          (exItem EndTransaction [])) = Inl IndexOutOfRange
   \<and> fst (processIntentsTask (exStore (Inr []) None True) (exReplica None) [] exNow
          (exItem EndTransaction [exIntent ''a'' [] ''t7'' COMMITTED])) = Inr ()"
  using processIntentsTask_first_intent
      [of "exItem EndTransaction []" "exStore (Inr []) None True" "[]" "[]"
          "exReplica None" exNow "[]" "[]"]
    processIntentsTask_first_intent
      [of "exItem EndTransaction [exIntent ''a'' [] ''t7'' COMMITTED]"
          "exStore (Inr []) None True" "[]" "[]" "exReplica None" exNow "[]" "[]"]
  by (simp add: ex_defs pushRequests_def)

text \<open>
  C5. Every request in the local and in the remote batch built by \<open>resolveIntents\<close>
  carries the \<open>poison\<close> argument of that call, and so does every request it dispatches
  or submits. Every resolve request that leaves \<open>processWriteIntentError\<close> carries
  poison = true, and every resolve request that leaves the closure of
  \<open>processIntentsAsync\<close> carries poison = false (push and GC requests have no such flag).
\<close>

theorem poison_propagation:
  "(\<forall>q \<in> set (fst (splitIntents r poison xs)) \<union> set (snd (splitIntents r poison xs)).
      poisonOf q = Some poison)
   \<and> (\<forall>ev \<in> set (drop (length tr) (snd (resolveIntents st r tr xs wait poison))).
        \<forall>q \<in> set (eventRequests ev). poisonOf q = Some poison)
   \<and> (\<forall>ev \<in> set (drop (length tr) (snd (processWriteIntentError st r tr wiErr a h pt))).
        \<forall>q \<in> set (eventRequests ev). poisonOf q = None \<or> poisonOf q = Some True)
   \<and> (\<forall>ev \<in> set (drop (length tr) (snd (processIntentsTask st r tr now item))).
        \<forall>q \<in> set (eventRequests ev). poisonOf q = None \<or> poisonOf q = Some False)"
proof (intro conjI ballI)
  fix q assume "q \<in> set (fst (splitIntents r poison xs)) \<union> set (snd (splitIntents r poison xs))"
  then show "poisonOf q = Some poison"
    using splitIntents_poison [of r poison xs "fst (splitIntents r poison xs)"
        "snd (splitIntents r poison xs)" q] by simp
next
  fix ev q
  assume "ev \<in> set (drop (length tr) (snd (resolveIntents st r tr xs wait poison)))"
    and "q \<in> set (eventRequests ev)"
  then show "poisonOf q = Some poison" by (rule resolveIntents_poison)
next
  fix ev q
  assume "ev \<in> set (drop (length tr) (snd (processWriteIntentError st r tr wiErr a h pt)))"
    and "q \<in> set (eventRequests ev)"
  then show "poisonOf q = None \<or> poisonOf q = Some True" by (rule processWriteIntentError_poison)
next
  fix ev q
  assume "ev \<in> set (drop (length tr) (snd (processIntentsTask st r tr now item)))"
    and "q \<in> set (eventRequests ev)"
  then show "poisonOf q = None \<or> poisonOf q = Some False" by (rule processIntentsTask_poison)
qed

theorem poison_propagation_witness:
  "snd (processWriteIntentError (exStore (Inr []) None True) (exReplica None) []
          (exWiErr [exIntent ''a'' [] ''t2'' COMMITTED, exIntent ''b'' ''d'' ''t2'' COMMITTED])
          (exArgs (OtherMethod ''Put'') False) (exHeader None) PUSH_ABORT)
   = [EvRunWithResponse [],
      EvRunAsyncTask (ResolveLocalTask
        [ResolveIntentRequest (exSpan ''a'' []) (exMeta ''t2'' ''rec'') COMMITTED True]) True,
      EvRunAsyncTask (ResolveRemoteTask
        [ResolveIntentRangeRequest (exSpan ''b'' ''d'') (exMeta ''t2'' ''rec'') COMMITTED True]) True]
   \<and> snd (processIntentsTask (exStore (Inr []) None True) (exReplica None) [] exNow
          (exItem (OtherMethod ''Scan'')
             [exIntent ''a'' [] ''t2'' COMMITTED, exIntent ''b'' ''d'' ''t2'' COMMITTED]))
   = [EvRunWithResponse [],
      EvAddWriteCmd [ResolveIntentRequest (exSpan ''a'' []) (exMeta ''t2'' ''rec'') COMMITTED False],
      EvRun [ResolveIntentRangeRequest (exSpan ''b'' ''d'') (exMeta ''t2'' ''rec'') COMMITTED False]]
   \<and> map poisonOf (concat (map eventRequests
        (snd (processIntentsTask (exStore (Inr []) None True) (exReplica None) [] exNow
          (exItem (OtherMethod ''Scan'')
             [exIntent ''a'' [] ''t2'' COMMITTED, exIntent ''b'' ''d'' ''t2'' COMMITTED])))))
     = [Some False, Some False]
   \<and> map poisonOf (concat (map eventRequests
        (snd (processWriteIntentError (exStore (Inr []) None True) (exReplica None) []
          (exWiErr [exIntent ''a'' [] ''t2'' COMMITTED, exIntent ''b'' ''d'' ''t2'' COMMITTED])
          (exArgs (OtherMethod ''Put'') False) (exHeader None) PUSH_ABORT))))
     = [Some True, Some True]"
  using poison_propagation
      [where st = "exStore (Inr []) None True" and r = "exReplica None" and tr = "[]"
         and wiErr = "exWiErr [exIntent ''a'' [] ''t2'' COMMITTED, exIntent ''b'' ''d'' ''t2'' COMMITTED]"
         and a = "exArgs (OtherMethod ''Put'') False" and h = "exHeader None" and pt = PUSH_ABORT
         and now = exNow and poison = True and wait = False
         and xs = "[exIntent ''a'' [] ''t2'' COMMITTED, exIntent ''b'' ''d'' ''t2'' COMMITTED]"
         and item = "exItem (OtherMethod ''Scan'')
             [exIntent ''a'' [] ''t2'' COMMITTED, exIntent ''b'' ''d'' ''t2'' COMMITTED]"]
  by (simp add: processWriteIntentError_def processIntentsTask_def push_defs resolve_defs ex_defs
      Let_def)

text \<open>
  C1. The value returned by \<open>processWriteIntentError\<close> is decided by the answer to the
  push batch and by the kind of caller. If the batch succeeds with one
  \<open>PushTxnResponse\<close> per pending intent, it is the original error with
  \<open>Resolved\<close> set. If the batch fails and the header has a transaction with a non-nil
  ID and the request is not read-only, it is the push error. If the batch fails and the
  caller is read-only or has no such transaction, it is the original error with
  \<open>Resolved\<close> left as it came in. The outcome of the resolve kick-off does not enter the
  value: it is the same for any replica, cluster client \<open>Run\<close> and task pool; an error
  of the kick-off is written to the log as a warning.
\<close>

theorem processWriteIntentError_outcomes:
  "(let reqs = pushRequests st tr (fst (partitionIntents (Intents wiErr))) h pt;
        writer = ((case HeaderTxn h of None \<Rightarrow> False | Some t \<Rightarrow> ID (TxnMeta t) \<noteq> None)
                  \<and> \<not> IsReadOnly a);
        out = processWriteIntentError st r tr wiErr a h pt
    in (\<forall>ts extra. length ts = length reqs
            \<and> db_RunWithResponse st tr reqs = Inr (map PushTxnResponse ts @ extra)
          \<longrightarrow> fst out = Inr (WriteIntentError (wiErr\<lparr>Resolved := True\<rparr>)))
     \<and> (\<forall>pe. db_RunWithResponse st tr reqs = Inl pe \<and> writer \<longrightarrow> fst out = Inr pe)
     \<and> (\<forall>pe. db_RunWithResponse st tr reqs = Inl pe \<and> \<not> writer
          \<longrightarrow> fst out = Inr (WriteIntentError wiErr))
     \<and> (\<forall>r' run pool.
           fst (processWriteIntentError (st\<lparr>db_Run := run, Stopper_RunAsyncTask := pool\<rparr>) r'
                  tr wiErr a h pt) = fst out)
     \<and> (\<forall>resolvable pushErr tr1 e tr2.
           maybePushTransactions st tr (Intents wiErr) h pt = (Inr (resolvable, pushErr), tr1)
           \<and> resolveIntents st r tr1 resolvable False True = (Some e, tr2)
          \<longrightarrow> snd out = tr2 @ [EvWarning ''asynchronous resolveIntents failed'' e]))"
proof -
  let ?pen = "filter (\<lambda>i. Status i = PENDING) (Intents wiErr)"
  let ?reqs = "pushRequests st tr ?pen h pt"
  let ?out = "processWriteIntentError st r tr wiErr a h pt"
  let ?writer = "(case HeaderTxn h of None \<Rightarrow> False | Some t \<Rightarrow> ID (TxnMeta t) \<noteq> None)
                  \<and> \<not> IsReadOnly a"
  have lenreq: "length ?reqs = length ?pen" by (simp add: pushRequests_def Let_def)
  have ok: "fst ?out = Inr (WriteIntentError (wiErr\<lparr>Resolved := True\<rparr>))"
    if "length ts = length ?reqs" "db_RunWithResponse st tr ?reqs = Inr (map PushTxnResponse ts @ extra)"
    for ts extra
  proof -
    from that(1) lenreq have len: "length ts = length ?pen" by simp
    from maybePush_success [OF len that(2)] show ?thesis
      by (simp add: processWriteIntentError_value)
  qed
  have fail: "fst ?out = (if ?writer then Inr pe else Inr (WriteIntentError wiErr))"
    if "db_RunWithResponse st tr ?reqs = Inl pe" for pe
    using maybePush_failure [OF that] by (simp add: processWriteIntentError_value)
  have indep: "fst (processWriteIntentError (st\<lparr>db_Run := run, Stopper_RunAsyncTask := pool\<rparr>) r'
                  tr wiErr a h pt) = fst ?out" for r' run pool
    by (simp only: processWriteIntentError_value maybePush_ignores_resolver)
  have logs: "snd ?out = tr2 @ [EvWarning ''asynchronous resolveIntents failed'' e]"
    if "maybePushTransactions st tr (Intents wiErr) h pt = (Inr (resolvable, pushErr), tr1)
           \<and> resolveIntents st r tr1 resolvable False True = (Some e, tr2)"
    for resolvable pushErr tr1 e tr2
    using that processWriteIntentError_logs by blast
  show ?thesis
    unfolding Let_def partitionIntents_filter fst_conv
    using ok fail indep logs by (intro conjI allI impI; (elim conjE)?) simp_all
qed

theorem processWriteIntentError_outcomes_witness:
  "fst (processWriteIntentError (exStore (Inr [PushTxnResponse (exTxn ''t2'' ABORTED)]) None True)
          (exReplica None) [] (exWiErr [exIntent ''a'' [] ''t2'' PENDING])
          (exArgs (OtherMethod ''Put'') False) (exHeader (Some (exTxn ''t3'' PENDING))) PUSH_ABORT)
   = Inr (WriteIntentError \<lparr>Intents = [exIntent ''a'' [] ''t2'' PENDING], Resolved = True\<rparr>)
   \<and> fst (processWriteIntentError (exStore (Inl (OtherError ''push failed'')) None True)
          (exReplica None) [] (exWiErr [exIntent ''a'' [] ''t2'' PENDING])
          (exArgs (OtherMethod ''Put'') False) (exHeader (Some (exTxn ''t3'' PENDING))) PUSH_ABORT)
   = Inr (OtherError ''push failed'')
   \<and> fst (processWriteIntentError (exStore (Inl (OtherError ''push failed'')) None True)
          (exReplica None) [] (exWiErr [exIntent ''a'' [] ''t2'' PENDING])
          (exArgs (OtherMethod ''Get'') True) (exHeader (Some (exTxn ''t3'' PENDING)))
          PUSH_TIMESTAMP)
   = Inr (WriteIntentError \<lparr>Intents = [exIntent ''a'' [] ''t2'' PENDING], Resolved = False\<rparr>)
   \<and> snd (processWriteIntentError (exStore (Inr [PushTxnResponse (exTxn ''t2'' ABORTED)]) None False)
          (exReplica (Some (OtherError ''raft''))) [] (exWiErr [exIntent ''a'' [] ''t2'' PENDING])
          (exArgs (OtherMethod ''Put'') False) (exHeader None) PUSH_ABORT)
   = [EvRunWithResponse
        [PushTxnRequest (exSpan ''rec'' []) (priorityOnlyTxn 1) (exMeta ''t2'' ''rec'')
           \<lparr>WallTime = 100, Logical = 0\<rparr> \<lparr>WallTime = 100, Logical = 0\<rparr> PUSH_ABORT],
      EvRunAsyncTask (ResolveLocalTask
        [ResolveIntentRequest (exSpan ''a'' []) (exMeta ''t2'' ''rec'') ABORTED True]) False,
      EvAddWriteCmd [ResolveIntentRequest (exSpan ''a'' []) (exMeta ''t2'' ''rec'') ABORTED True],
      EvWarning ''asynchronous resolveIntents failed'' (OtherError ''raft'')]"
  using processWriteIntentError_outcomes
      [where st = "exStore (Inr [PushTxnResponse (exTxn ''t2'' ABORTED)]) None True"
         and r = "exReplica None" and tr = "[]"
         and wiErr = "exWiErr [exIntent ''a'' [] ''t2'' PENDING]"
         and a = "exArgs (OtherMethod ''Put'') False"
         and h = "exHeader (Some (exTxn ''t3'' PENDING))" and pt = PUSH_ABORT]
    processWriteIntentError_outcomes
      [where st = "exStore (Inl (OtherError ''push failed'')) None True"
         and r = "exReplica None" and tr = "[]"
         and wiErr = "exWiErr [exIntent ''a'' [] ''t2'' PENDING]"
         and a = "exArgs (OtherMethod ''Put'') False"
         and h = "exHeader (Some (exTxn ''t3'' PENDING))" and pt = PUSH_ABORT]
    processWriteIntentError_outcomes
      [where st = "exStore (Inl (OtherError ''push failed'')) None True"
         and r = "exReplica None" and tr = "[]"
         and wiErr = "exWiErr [exIntent ''a'' [] ''t2'' PENDING]"
         and a = "exArgs (OtherMethod ''Get'') True"
         and h = "exHeader (Some (exTxn ''t3'' PENDING))" and pt = PUSH_TIMESTAMP]
    processWriteIntentError_outcomes
      [where st = "exStore (Inr [PushTxnResponse (exTxn ''t2'' ABORTED)]) None False"
         and r = "exReplica (Some (OtherError ''raft''))" and tr = "[]"
         and wiErr = "exWiErr [exIntent ''a'' [] ''t2'' PENDING]"
         and a = "exArgs (OtherMethod ''Put'') False"
         and h = "exHeader None" and pt = PUSH_ABORT]
  by (simp add: processWriteIntentError_def push_defs resolve_defs ex_defs Let_def)

text \<open>
  C3, as stated, fails: with \<open>wait\<close> set, one local and one remote intent, and a local
  batch that the replica's write path answers with an error, the call returns that
  error after the local dispatch alone; the remote batch is never given to the cluster
  client.
\<close>

theorem resolveIntents_wait_stops_at_local_error:
  "resolveIntents (exStore (Inr []) None True) (exReplica (Some (OtherError ''raft''))) []
     [exIntent ''a'' [] ''t1'' COMMITTED, exIntent ''z'' [] ''t1'' COMMITTED] True False
   = (Some (OtherError ''raft''),
      [EvAddWriteCmd [ResolveIntentRequest (exSpan ''a'' []) (exMeta ''t1'' ''rec'') COMMITTED False]])"
  by (simp add: resolve_defs ex_defs)

text \<open>
  C3, amended. With \<open>wait\<close> set nothing is submitted to the task pool. A non-empty local
  batch is given to the replica's write path first, and an error from it is returned at
  once, the remote batch not being dispatched. Otherwise a non-empty remote batch is
  given to the cluster client and its answer is returned. Nil is returned only after
  every batch that was dispatched has come back without an error.
\<close>

theorem resolveIntents_wait:
  "resolveIntents st r tr xs True poison
   = (let (baLocal, reqsRemote) = splitIntents r poison xs;
          tr1 = (if baLocal = [] then tr else tr @ [EvAddWriteCmd baLocal])
      in if baLocal \<noteq> [] \<and> addWriteCmd r tr baLocal \<noteq> None
         then (addWriteCmd r tr baLocal, tr1)
         else if reqsRemote \<noteq> [] then (db_Run st tr1 reqsRemote, tr1 @ [EvRun reqsRemote])
         else (None, tr1))"
  by (auto simp: resolveIntents_def resolveLocal_def resolveRemote_def localAction_def
      remoteAction_def Let_def split: prod.splits option.splits)

theorem resolveIntents_wait_witness:
  "resolveIntents (exStore (Inr []) (Some (OtherError ''rpc'')) True) (exReplica None) []
     [exIntent ''a'' [] ''t1'' COMMITTED, exIntent ''z'' [] ''t1'' COMMITTED] True False
   = (Some (OtherError ''rpc''),
      [EvAddWriteCmd [ResolveIntentRequest (exSpan ''a'' []) (exMeta ''t1'' ''rec'') COMMITTED False],
       EvRun [ResolveIntentRequest (exSpan ''z'' []) (exMeta ''t1'' ''rec'') COMMITTED False]])"
  using resolveIntents_wait [of "exStore (Inr []) (Some (OtherError ''rpc'')) True"
      "exReplica None" "[]"
      "[exIntent ''a'' [] ''t1'' COMMITTED, exIntent ''z'' [] ''t1'' COMMITTED]" False]
  by (simp add: splitIntents_filter resolveArgs_def ex_defs)

text \<open>
  C7. Without \<open>wait\<close>, when the pool declines the submission of the local batch, the
  batch is given to the replica's write path on the caller, and an error from it is
  returned; when the pool declines the submission of the remote batch, the batch is
  given to the cluster client on the caller and its answer is returned. When the call
  returns nil, each non-empty batch was either accepted by the pool or run on the
  caller.
\<close>

theorem resolveIntents_draining:
  "(let (baLocal, reqsRemote) = splitIntents r poison xs;
        declined = tr @ [EvRunAsyncTask (ResolveLocalTask baLocal) False];
        out = resolveIntents st r tr xs False poison
    in (baLocal \<noteq> [] \<and> \<not> Stopper_RunAsyncTask st tr \<longrightarrow>
          (case addWriteCmd r declined baLocal of
             Some e \<Rightarrow> out = (Some e, declined @ [EvAddWriteCmd baLocal])
           | None \<Rightarrow> out = resolveRemote st (declined @ [EvAddWriteCmd baLocal]) reqsRemote False))
     \<and> (\<forall>tr1. reqsRemote \<noteq> [] \<and> resolveLocal st r tr baLocal False = (None, tr1)
               \<and> \<not> Stopper_RunAsyncTask st tr1 \<longrightarrow>
          out = (db_Run st (tr1 @ [EvRunAsyncTask (ResolveRemoteTask reqsRemote) False]) reqsRemote,
                 tr1 @ [EvRunAsyncTask (ResolveRemoteTask reqsRemote) False, EvRun reqsRemote]))
     \<and> (fst out = None \<longrightarrow>
          (baLocal \<noteq> [] \<longrightarrow>
             EvRunAsyncTask (ResolveLocalTask baLocal) True \<in> set (drop (length tr) (snd out))
             \<or> EvAddWriteCmd baLocal \<in> set (drop (length tr) (snd out)))
          \<and> (reqsRemote \<noteq> [] \<longrightarrow>
             EvRunAsyncTask (ResolveRemoteTask reqsRemote) True \<in> set (drop (length tr) (snd out))
             \<or> EvRun reqsRemote \<in> set (drop (length tr) (snd out)))))"
proof -
  obtain L R where lr: "splitIntents r poison xs = (L, R)"
    by (cases "splitIntents r poison xs")
  let ?out = "resolveIntents st r tr xs False poison"
  let ?d = "tr @ [EvRunAsyncTask (ResolveLocalTask L) False]"
  have a: "case addWriteCmd r ?d L of
             Some e \<Rightarrow> ?out = (Some e, ?d @ [EvAddWriteCmd L])
           | None \<Rightarrow> ?out = resolveRemote st (?d @ [EvAddWriteCmd L]) R False"
    if "L \<noteq> []" "\<not> Stopper_RunAsyncTask st tr"
    using that lr
    by (simp add: resolveIntents_def resolveLocal_def localAction_def split: option.splits)
  have b: "?out = (db_Run st (tr1 @ [EvRunAsyncTask (ResolveRemoteTask R) False]) R,
                 tr1 @ [EvRunAsyncTask (ResolveRemoteTask R) False, EvRun R])"
    if "R \<noteq> []" "resolveLocal st r tr L False = (None, tr1)" "\<not> Stopper_RunAsyncTask st tr1"
    for tr1
    using that lr by (simp add: resolveIntents_def resolveRemote_def remoteAction_def)
  obtain e1 tr1 where l: "resolveLocal st r tr L False = (e1, tr1)"
    by (cases "resolveLocal st r tr L False")
  have c1: "EvRunAsyncTask (ResolveLocalTask L) True \<in> set (drop (length tr) (snd ?out))
             \<or> EvAddWriteCmd L \<in> set (drop (length tr) (snd ?out))"
    if "fst ?out = None" "L \<noteq> []"
  proof -
    from that(1) lr l have e1: "e1 = None"
      by (cases e1) (simp_all add: resolveIntents_def)
    then have o: "?out = resolveRemote st tr1 R False"
      using lr l by (simp add: resolveIntents_def)
    obtain n2 where n2: "snd (resolveRemote st tr1 R False) = tr1 @ n2"
      using resolveRemote_new [of st tr1 R False] by blast
    from l that(2) have "\<exists>pre. tr1 = tr @ pre
        \<and> (EvRunAsyncTask (ResolveLocalTask L) True \<in> set pre \<or> EvAddWriteCmd L \<in> set pre)"
      by (auto simp: resolveLocal_def localAction_def split: if_splits)
    then show ?thesis using o n2 by auto
  qed
  have c2: "EvRunAsyncTask (ResolveRemoteTask R) True \<in> set (drop (length tr) (snd ?out))
             \<or> EvRun R \<in> set (drop (length tr) (snd ?out))"
    if "fst ?out = None" "R \<noteq> []"
  proof -
    from that(1) lr l have e1: "e1 = None"
      by (cases e1) (simp_all add: resolveIntents_def)
    then have o: "?out = resolveRemote st tr1 R False"
      using lr l by (simp add: resolveIntents_def)
    obtain n1 where n1: "tr1 = tr @ n1"
      using resolveLocal_new [of st r tr L False] l by auto
    from that(2) have "\<exists>post. snd (resolveRemote st tr1 R False) = tr1 @ post
        \<and> (EvRunAsyncTask (ResolveRemoteTask R) True \<in> set post \<or> EvRun R \<in> set post)"
      by (auto simp: resolveRemote_def remoteAction_def)
    then show ?thesis using o n1 by auto
  qed
  show ?thesis
    unfolding lr Let_def prod.case
    using a b c1 c2 by (intro conjI allI impI; (elim conjE)?) blast+
qed

theorem resolveIntents_draining_witness:
  "resolveIntents (exStore (Inr []) None False) (exReplica (Some (OtherError ''raft''))) []
     [exIntent ''a'' [] ''t1'' COMMITTED, exIntent ''z'' [] ''t1'' COMMITTED] False True
   = (Some (OtherError ''raft''),
      [EvRunAsyncTask (ResolveLocalTask
         [ResolveIntentRequest (exSpan ''a'' []) (exMeta ''t1'' ''rec'') COMMITTED True]) False,
       EvAddWriteCmd [ResolveIntentRequest (exSpan ''a'' []) (exMeta ''t1'' ''rec'') COMMITTED True]])
   \<and> resolveIntents (exStore (Inr []) (Some (OtherError ''rpc'')) False) (exReplica None) []
     [exIntent ''z'' [] ''t1'' COMMITTED] False True
   = (Some (OtherError ''rpc''),
      [EvRunAsyncTask (ResolveRemoteTask
         [ResolveIntentRequest (exSpan ''z'' []) (exMeta ''t1'' ''rec'') COMMITTED True]) False,
       EvRun [ResolveIntentRequest (exSpan ''z'' []) (exMeta ''t1'' ''rec'') COMMITTED True]])"
  using resolveIntents_draining
      [where st = "exStore (Inr []) None False" and r = "exReplica (Some (OtherError ''raft''))"
         and tr = "[]" and poison = True
         and xs = "[exIntent ''a'' [] ''t1'' COMMITTED, exIntent ''z'' [] ''t1'' COMMITTED]"]
    resolveIntents_draining
      [where st = "exStore (Inr []) (Some (OtherError ''rpc'')) False" and r = "exReplica None"
         and tr = "[]" and poison = True
         and xs = "[exIntent ''z'' [] ''t1'' COMMITTED]"]
  by (simp add: splitIntents_filter resolveArgs_def resolveLocal_def ex_defs Let_def)

text \<open>
  C8 (the code departs from the claim). Two items are queued: the first comes from an
  EndTransaction of transaction t7, the second from a Scan that met an intent of
  transaction t8. The closure of the first iteration shares the loop variable with the
  second iteration, so when it runs after the loop has moved on it reads the second
  item's intents under its own EndTransaction \<open>args\<close>: it resolves the intent of t8 and
  issues a GC request for the transaction record of t8, whose request was not an
  EndTransaction.
\<close>

theorem processIntentsAsync_closure_shares_loop_variable:
  "processIntentsAsync (exStore (Inr []) None True) []
     [exItem EndTransaction [\<lparr>Span = exSpan ''a'' [], Txn = exMeta ''t7'' ''rec7'', Status = COMMITTED\<rparr>],
      exItem (OtherMethod ''Scan'')
        [\<lparr>Span = exSpan ''b'' [], Txn = exMeta ''t8'' ''rec8'', Status = COMMITTED\<rparr>]]
   = [EvRunAsyncTask (ProcessIntentsTask (exArgs EndTransaction False)
        [exItem EndTransaction
           [\<lparr>Span = exSpan ''a'' [], Txn = exMeta ''t7'' ''rec7'', Status = COMMITTED\<rparr>],
         exItem (OtherMethod ''Scan'')
           [\<lparr>Span = exSpan ''b'' [], Txn = exMeta ''t8'' ''rec8'', Status = COMMITTED\<rparr>]]
        \<lparr>WallTime = 100, Logical = 0\<rparr>) True,
      EvRunAsyncTask (ProcessIntentsTask (exArgs (OtherMethod ''Scan'') False)
        [exItem (OtherMethod ''Scan'')
           [\<lparr>Span = exSpan ''b'' [], Txn = exMeta ''t8'' ''rec8'', Status = COMMITTED\<rparr>]]
        \<lparr>WallTime = 100, Logical = 0\<rparr>) True]
   \<and> closureReads (exArgs EndTransaction False)
        [exItem EndTransaction
           [\<lparr>Span = exSpan ''a'' [], Txn = exMeta ''t7'' ''rec7'', Status = COMMITTED\<rparr>],
         exItem (OtherMethod ''Scan'')
           [\<lparr>Span = exSpan ''b'' [], Txn = exMeta ''t8'' ''rec8'', Status = COMMITTED\<rparr>]]
     = [exItem EndTransaction
          [\<lparr>Span = exSpan ''a'' [], Txn = exMeta ''t7'' ''rec7'', Status = COMMITTED\<rparr>],
        exItem EndTransaction
          [\<lparr>Span = exSpan ''b'' [], Txn = exMeta ''t8'' ''rec8'', Status = COMMITTED\<rparr>]]
   \<and> processIntentsTask (exStore (Inr []) None True) (exReplica None) []
        \<lparr>WallTime = 100, Logical = 0\<rparr>
        (exItem EndTransaction
           [\<lparr>Span = exSpan ''b'' [], Txn = exMeta ''t8'' ''rec8'', Status = COMMITTED\<rparr>])
     = (Inr (),
        [EvRunWithResponse [],
         EvAddWriteCmd [ResolveIntentRequest (exSpan ''b'' []) (exMeta ''t8'' ''rec8'') COMMITTED False],
         EvAddWriteCmd [GCRequest (exSpan ''a'' ''c'') [''txn-rec8t8'']]])"
  by (simp add: processIntentsAsync_def closureReads_def processIntentsTask_def push_defs
      resolve_defs ex_defs Let_def)

end
